theory Spec2Isabelle
  imports Complex_Main "HOL-Library.AList"
begin

section \<open>Data model\<close>

subsection \<open>Cell values\<close>

text \<open>
  A cell of a pandas frame as the pipeline sees it: a float64 value, which is a finite
  number, one of the two infinities, or NaN (the missing marker of pandas). Finite
  numbers are real numbers here: the arithmetic of the source (\<open>-\<close>, \<open>*\<close>, \<open>**\<close>,
  \<open>sqrt\<close>, \<open>round\<close>) is modelled exactly, without the rounding of binary floating
  point and without overflow. Integer columns are finite cells. Text cells are outside
  the model: every column, also the column of actor identifiers, holds numbers or
  missing values.
\<close>

datatype cell = Fin real | PInf | NInf | NaN

fun cell_neg :: "cell \<Rightarrow> cell" where
  "cell_neg (Fin x) = Fin (- x)"
| "cell_neg PInf = NInf"
| "cell_neg NInf = PInf"
| "cell_neg NaN = NaN"

fun cell_add :: "cell \<Rightarrow> cell \<Rightarrow> cell" where
  "cell_add NaN b = NaN"
| "cell_add a NaN = NaN"
| "cell_add (Fin x) (Fin y) = Fin (x + y)"
| "cell_add PInf NInf = NaN"
| "cell_add NInf PInf = NaN"
| "cell_add PInf b = PInf"
| "cell_add NInf b = NInf"
| "cell_add (Fin x) b = b"

definition cell_sub :: "cell \<Rightarrow> cell \<Rightarrow> cell" where
  "cell_sub a b = cell_add a (cell_neg b)"

fun cell_mul :: "cell \<Rightarrow> cell \<Rightarrow> cell" where
  "cell_mul NaN b = NaN"
| "cell_mul a NaN = NaN"
| "cell_mul (Fin x) (Fin y) = Fin (x * y)"
| "cell_mul (Fin x) PInf = (if x = 0 then NaN else if 0 < x then PInf else NInf)"
| "cell_mul (Fin x) NInf = (if x = 0 then NaN else if 0 < x then NInf else PInf)"
| "cell_mul PInf (Fin y) = (if y = 0 then NaN else if 0 < y then PInf else NInf)"
| "cell_mul NInf (Fin y) = (if y = 0 then NaN else if 0 < y then NInf else PInf)"
| "cell_mul PInf PInf = PInf"
| "cell_mul NInf NInf = PInf"
| "cell_mul PInf NInf = NInf"
| "cell_mul NInf PInf = NInf"

text \<open>\<open>x ** 2\<close> on a float column.\<close>

fun cell_sq :: "cell \<Rightarrow> cell" where
  "cell_sq (Fin x) = Fin (x\<^sup>2)"
| "cell_sq PInf = PInf"
| "cell_sq NInf = PInf"
| "cell_sq NaN = NaN"

text \<open>\<open>np.sqrt\<close>: NaN for a negative argument.\<close>

fun cell_sqrt :: "cell \<Rightarrow> cell" where
  "cell_sqrt (Fin x) = (if x < 0 then NaN else Fin (sqrt x))"
| "cell_sqrt PInf = PInf"
| "cell_sqrt NInf = NaN"
| "cell_sqrt NaN = NaN"

text \<open>Comparisons of IEEE floats: any comparison with NaN is false, also equality.\<close>

fun cell_lt :: "cell \<Rightarrow> cell \<Rightarrow> bool" where
  "cell_lt NaN b = False"
| "cell_lt a NaN = False"
| "cell_lt (Fin x) (Fin y) = (x < y)"
| "cell_lt a NInf = False"
| "cell_lt PInf b = False"
| "cell_lt NInf b = True"
| "cell_lt (Fin x) PInf = True"

definition cell_gt :: "cell \<Rightarrow> cell \<Rightarrow> bool" where
  "cell_gt a b = cell_lt b a"

definition cell_eq :: "cell \<Rightarrow> cell \<Rightarrow> bool" where
  "cell_eq a b = (a \<noteq> NaN \<and> b \<noteq> NaN \<and> a = b)"

definition isna :: "cell \<Rightarrow> bool" where
  "isna c = (c = NaN)"

text \<open>\<open>Series.fillna(v)\<close> and \<open>Series.dropna()\<close>.\<close>

definition fillna :: "cell \<Rightarrow> cell list \<Rightarrow> cell list" where
  "fillna v xs = map (\<lambda>c. if isna c then v else c) xs"

definition dropna :: "cell list \<Rightarrow> cell list" where
  "dropna xs = filter (\<lambda>c. \<not> isna c) xs"

text \<open>\<open>Series.any()\<close> on a boolean column.\<close>

definition any :: "bool list \<Rightarrow> bool" where
  "any bs = (True \<in> set bs)"

text \<open>
  \<open>Series.diff()\<close>: the first entry is NaN, every other entry is the difference to
  its predecessor.
\<close>

definition diff :: "cell list \<Rightarrow> cell list" where
  "diff xs = (case xs of [] \<Rightarrow> [] | x # ys \<Rightarrow> NaN # map2 cell_sub ys xs)"

subsection \<open>Tables\<close>

text \<open>
  A frame: its row count (\<open>len(df)\<close>) and its columns in order, each a name with its
  cells. A frame of pandas has every column as long as the frame, and the pipeline
  addresses columns by names it takes to be unique; \<open>wf_table\<close> says both.
\<close>

record table =
  nrows :: nat
  cols :: "(string \<times> cell list) list"

definition wf_table :: "table \<Rightarrow> bool" where
  "wf_table df = (distinct (map fst (cols df)) \<and> list_all (\<lambda>nc. length (snd nc) = nrows df) (cols df))"

text \<open>\<open>name in df.columns\<close> and \<open>df[name]\<close>, which raises KeyError for an absent name.\<close>

datatype error =
    ReadError
  | KeyError string
  | IndexError
  | ValueError
  | OverflowError

definition has_col :: "table \<Rightarrow> string \<Rightarrow> bool" where
  "has_col df name = (name \<in> set (map fst (cols df)))"

definition get_col :: "table \<Rightarrow> string \<Rightarrow> error + cell list" where
  "get_col df name = (case map_of (cols df) name of None \<Rightarrow> Inl (KeyError name) | Some c \<Rightarrow> Inr c)"

text \<open>
  \<open>df[name]\<close> behind a test that the column is there (the required-column check, or
  \<open>name in df.columns\<close>): it cannot raise, and the empty column stands for the branch
  that is never taken.
\<close>

definition col_of :: "table \<Rightarrow> string \<Rightarrow> cell list" where
  "col_of df name = (case map_of (cols df) name of None \<Rightarrow> [] | Some c \<Rightarrow> c)"

text \<open>\<open>df[name] = c\<close>: replaces the column in place, or appends it as the last one.\<close>

definition set_col :: "string \<Rightarrow> cell list \<Rightarrow> table \<Rightarrow> table" where
  "set_col name c df = df\<lparr>cols := AList.update name c (cols df)\<rparr>"

subsection \<open>Strings\<close>

text \<open>\<open>sep.join(xs)\<close>.\<close>

fun join :: "string \<Rightarrow> string list \<Rightarrow> string" where
  "join sep [] = []"
| "join sep [x] = x"
| "join sep (x # y # ys) = x @ sep @ join sep (y # ys)"

text \<open>The decimal numeral of a natural number and of an integer, as \<open>str\<close> and f-strings print it.\<close>

definition digit :: "nat \<Rightarrow> char" where
  "digit d = ''0123456789'' ! d"

function str_nat :: "nat \<Rightarrow> string" where
  "str_nat n = (if n < 10 then [digit n] else str_nat (n div 10) @ [digit (n mod 10)])"
  by pat_completeness auto
termination
  by (relation "measure id") auto

definition str_int :: "int \<Rightarrow> string" where
  "str_int i = (if i < 0 then CHR ''-'' # str_nat (nat (- i)) else str_nat (nat i))"

section \<open>validator.py\<close>

definition VUT_REQUIRED_COLS :: "string list" where
  "VUT_REQUIRED_COLS =
     [''Time'', ''Step_number'', ''VUT_pos_lat'', ''VUT_pos_lng'', ''VUT_heading'', ''VUT_vel_abs'']"

definition ACTOR_REQUIRED_COLS :: "string list" where
  "ACTOR_REQUIRED_COLS =
     [''Time'', ''Step_number'', ''Actor_Id'', ''Actor_type'', ''Actor_pos_true_lat'',
      ''Actor_pos_true_lng'', ''Actor_heading_true'']"

text \<open>
  The shape of every range rule: \<open>x = df[name].dropna()\<close>, then
  \<open>len(x) > 0 and ((x < lo) | (x > hi)).any()\<close>.
\<close>

definition outside :: "real \<Rightarrow> real \<Rightarrow> cell list \<Rightarrow> bool" where
  "outside lo hi c =
     (let x = dropna c in
      0 < length x \<and> any (map (\<lambda>v. cell_lt v (Fin lo) \<or> cell_gt v (Fin hi)) x))"

text \<open>\<open>len(vel) > 0 and (vel < 0).any()\<close>.\<close>

definition negative :: "cell list \<Rightarrow> bool" where
  "negative c = (let x = dropna c in 0 < length x \<and> any (map (\<lambda>v. cell_lt v (Fin 0)) x))"

text \<open>\<open>len(time_vals) > 1 and (time_vals.diff().dropna() < 0).any()\<close>.\<close>

definition decreasing :: "cell list \<Rightarrow> bool" where
  "decreasing c =
     (let time_vals = dropna c in
      1 < length time_vals \<and> any (map (\<lambda>v. cell_lt v (Fin 0)) (dropna (diff time_vals))))"

definition missing_msg :: "string list \<Rightarrow> string" where
  "missing_msg missing = ''Missing required columns: '' @ join '', '' missing"

definition nan_warning :: "table \<Rightarrow> string \<Rightarrow> string list" where
  "nan_warning df col =
     (if has_col df col \<and> any (map isna (col_of df col))
      then [col @ '' has '' @ str_nat (length (filter isna (col_of df col))) @ '' NaN value(s)'']
      else [])"

definition validate_vut :: "table \<Rightarrow> string list \<times> string list" where
  "validate_vut df =
     (let missing = filter (\<lambda>c. \<not> has_col df c) VUT_REQUIRED_COLS in
      if missing \<noteq> [] then ([missing_msg missing], [])
      else
        ((if outside (-90) 90 (col_of df ''VUT_pos_lat'')
          then [''VUT_pos_lat contains values outside the valid range (-90 to 90)''] else [])
         @ (if outside (-180) 360 (col_of df ''VUT_pos_lng'')
            then [''VUT_pos_lng contains values outside the valid range (-180 to 360)''] else [])
         @ (if outside 0 360 (col_of df ''VUT_heading'')
            then [''VUT_heading contains values outside the valid range (0 to 360)''] else [])
         @ (if negative (col_of df ''VUT_vel_abs'')
            then [''VUT_vel_abs contains negative values''] else [])
         @ (if decreasing (col_of df ''Time'')
            then [''Time column is not monotonically non-decreasing''] else []),
         concat (map (nan_warning df) [''VUT_pos_lat'', ''VUT_pos_lng'', ''VUT_heading''])))"

text \<open>\<open>float(x).is_integer()\<close>.\<close>

fun is_integer :: "cell \<Rightarrow> bool" where
  "is_integer (Fin x) = (of_int \<lfloor>x\<rfloor> = x)"
| "is_integer c = False"

text \<open>
  The \<open>except (ValueError, TypeError)\<close> branch of the \<open>Actor_type\<close> rule needs a cell
  that \<open>float\<close> rejects; with numeric cells it is never taken.
\<close>

definition validate_actors :: "table \<Rightarrow> string list \<times> string list" where
  "validate_actors df =
     (let missing = filter (\<lambda>c. \<not> has_col df c) ACTOR_REQUIRED_COLS in
      if missing \<noteq> [] then ([missing_msg missing], [])
      else
        ((if outside (-90) 90 (col_of df ''Actor_pos_true_lat'')
          then [''Actor_pos_true_lat contains values outside the valid range (-90 to 90)''] else [])
         @ (if outside (-180) 360 (col_of df ''Actor_pos_true_lng'')
            then [''Actor_pos_true_lng contains values outside the valid range (-180 to 360)''] else [])
         @ (if outside 0 360 (col_of df ''Actor_heading_true'')
            then [''Actor_heading_true contains values outside the valid range (0 to 360)''] else [])
         @ (let actor_types = dropna (col_of df ''Actor_type'');
                non_int = filter (\<lambda>x. \<not> is_integer x) actor_types
            in if 0 < length non_int then [''Actor_type contains non-integer values''] else []),
         []))"

section \<open>processor.py\<close>

subsection \<open>Loading\<close>

text \<open>
  A byte buffer is a list of bytes. \<open>pd.read_excel\<close> and \<open>pd.read_csv\<close> are library
  code: they are parameters here, each returning a table or raising.
\<close>

type_synonym file_bytes = "char list"

type_synonym reader = "file_bytes \<Rightarrow> error + table"

definition read_tabular :: "reader \<Rightarrow> reader \<Rightarrow> file_bytes \<Rightarrow> error + table" where
  "read_tabular read_excel read_csv file_bytes =
     (if take 4 file_bytes = [CHR ''P'', CHR ''K'', CHR 0x03, CHR 0x04]
      then read_excel file_bytes else read_csv file_bytes)"

text \<open>\<open>str.strip()\<close> (the ASCII whitespace characters) and \<open>str.startswith\<close>.\<close>

definition is_space :: "char \<Rightarrow> bool" where
  "is_space c =
     (c \<in> set [CHR 0x09, CHR 0x0A, CHR 0x0B, CHR 0x0C, CHR 0x0D,
               CHR 0x1C, CHR 0x1D, CHR 0x1E, CHR 0x1F, CHR 0x20])"

definition strip :: "string \<Rightarrow> string" where
  "strip s = rev (dropWhile is_space (rev (dropWhile is_space s)))"

definition startswith :: "string \<Rightarrow> string \<Rightarrow> bool" where
  "startswith s p = (take (length p) s = p)"

text \<open>
  The two lines shared by both loaders: column names stripped, then the columns whose
  name starts with \<open>Unnamed\<close> dropped.
\<close>

definition clean_columns :: "table \<Rightarrow> table" where
  "clean_columns df =
     df\<lparr>cols := filter (\<lambda>nc. \<not> startswith (fst nc) ''Unnamed'')
                    (map (\<lambda>nc. (strip (fst nc), snd nc)) (cols df))\<rparr>"

text \<open>\<open>Series.iloc[0]\<close> raises IndexError on an empty column.\<close>

definition iloc0 :: "cell list \<Rightarrow> error + cell" where
  "iloc0 c = (case c of [] \<Rightarrow> Inl IndexError | x # _ \<Rightarrow> Inr x)"

definition load_vut :: "reader \<Rightarrow> reader \<Rightarrow> file_bytes \<Rightarrow> error + table" where
  "load_vut read_excel read_csv file_bytes =
     (case read_tabular read_excel read_csv file_bytes of
        Inl e \<Rightarrow> Inl e
      | Inr raw \<Rightarrow>
          let df = clean_columns raw in
          (case get_col df ''Time'' of
             Inl e \<Rightarrow> Inl e
           | Inr time \<Rightarrow>
               (case iloc0 time of
                  Inl e \<Rightarrow> Inl e
                | Inr time0 \<Rightarrow>
                    let df = set_col ''t'' (map (\<lambda>v. cell_sub v time0) time) df in
                    if has_col df ''VUT_vel_abs'' then
                      let df = set_col ''VUT_vel_ms'' (fillna (Fin 0) (col_of df ''VUT_vel_abs'')) df;
                          df = set_col ''VUT_vel_kmh''
                                 (map (\<lambda>v. cell_mul v (Fin (36 / 10))) (col_of df ''VUT_vel_ms'')) df
                      in Inr df
                    else Inr df)))"

text \<open>
  \<open>df.loc[mask, name]\<close> keeps the cells of the rows where the mask holds;
  \<open>df.loc[mask, name] = values\<close> writes the values, in order, into those rows.
\<close>

definition select :: "bool list \<Rightarrow> 'a list \<Rightarrow> 'a list" where
  "select msk c = map snd (filter fst (zip msk c))"

fun assign_masked :: "bool list \<Rightarrow> cell list \<Rightarrow> cell list \<Rightarrow> cell list" where
  "assign_masked (True # m) (x # xs) (v # vs) = v # assign_masked m xs vs"
| "assign_masked (False # m) (x # xs) vs = x # assign_masked m xs vs"
| "assign_masked m xs vs = xs"

definition load_actors :: "reader \<Rightarrow> reader \<Rightarrow> file_bytes \<Rightarrow> error + table" where
  "load_actors read_excel read_csv file_bytes =
     (case read_tabular read_excel read_csv file_bytes of
        Inl e \<Rightarrow> Inl e
      | Inr raw \<Rightarrow>
          let df = clean_columns raw in
          if has_col df ''Actor_vel_abs'' \<and> has_col df ''Actor_vel_lat'' then
            let zero_mask = map (\<lambda>v. cell_eq v (Fin 0)) (fillna (Fin 0) (col_of df ''Actor_vel_abs'')) in
            (case get_col df ''Actor_vel_lat'' of
               Inl e \<Rightarrow> Inl e
             | Inr lat \<Rightarrow>
                 (case get_col df ''Actor_vel_lng'' of
                    Inl e \<Rightarrow> Inl e
                  | Inr lng \<Rightarrow>
                      Inr (set_col ''Actor_vel_abs''
                             (assign_masked zero_mask (col_of df ''Actor_vel_abs'')
                                (map cell_sqrt
                                   (map2 cell_add
                                      (map cell_sq (fillna (Fin 0) (select zero_mask lat)))
                                      (map cell_sq (fillna (Fin 0) (select zero_mask lng))))))
                             df)))
          else Inr df)"

subsection \<open>Actors\<close>

text \<open>
  \<open>Series.unique()\<close>: the distinct values in order of first appearance, all NaN taken
  as one value.
\<close>

fun unique :: "cell list \<Rightarrow> cell list" where
  "unique [] = []"
| "unique (x # xs) = x # unique (filter (\<lambda>y. y \<noteq> x) xs)"

text \<open>\<open>df[mask]\<close>: the rows where the mask holds.\<close>

definition filter_rows :: "bool list \<Rightarrow> table \<Rightarrow> table" where
  "filter_rows msk df =
     \<lparr>nrows = length (filter id msk), cols = map (\<lambda>nc. (fst nc, select msk (snd nc))) (cols df)\<rparr>"

text \<open>\<open>df[df["Actor_Id"] == aid]\<close>.\<close>

definition rows_of :: "table \<Rightarrow> cell \<Rightarrow> table" where
  "rows_of df aid = filter_rows (map (\<lambda>v. cell_eq v aid) (col_of df ''Actor_Id'')) df"

text \<open>\<open>int(x)\<close> on a float: truncation towards zero; NaN and the infinities raise.\<close>

fun py_int :: "cell \<Rightarrow> error + int" where
  "py_int (Fin x) = Inr (if 0 \<le> x then \<lfloor>x\<rfloor> else \<lceil>x\<rceil>)"
| "py_int NaN = Inl ValueError"
| "py_int PInf = Inl OverflowError"
| "py_int NInf = Inl OverflowError"

text \<open>\<open>int(rows["Actor_type"].iloc[0]) if "Actor_type" in rows.columns else 0\<close>.\<close>

definition actor_type_of :: "table \<Rightarrow> error + int" where
  "actor_type_of rows =
     (if has_col rows ''Actor_type'' then
        (case iloc0 (col_of rows ''Actor_type'') of Inl e \<Rightarrow> Inl e | Inr v \<Rightarrow> py_int v)
      else Inr 0)"

definition ACTOR_TYPE_NAMES :: "(int \<times> string) list" where
  "ACTOR_TYPE_NAMES =
     [(0, ''pedestrian''), (1, ''PMD''), (2, ''cyclist''), (3, ''animal''),
      (4, ''passenger_vehicle''), (5, ''motorcycle''), (6, ''fire_truck''), (7, ''ambulance''),
      (8, ''van''), (9, ''trailer''), (10, ''truck''), (11, ''bus''),
      (20, ''construction_cone''), (99, ''others'')]"

definition type_name :: "int \<Rightarrow> string" where
  "type_name atype =
     (case map_of ACTOR_TYPE_NAMES atype of Some n \<Rightarrow> n | None \<Rightarrow> ''type_'' @ str_int atype)"

text \<open>
  An entry of the actor list. The identifier is kept as the cell it is; the source
  stores \<open>str(aid)\<close>.
\<close>

record actor =
  actor_id :: cell
  actor_type :: int
  actor_type_name :: string

text \<open>A loop whose body may raise: the first error ends it.\<close>

fun mapM :: "('a \<Rightarrow> error + 'b) \<Rightarrow> 'a list \<Rightarrow> error + 'b list" where
  "mapM f [] = Inr []"
| "mapM f (x # xs) =
     (case f x of
        Inl e \<Rightarrow> Inl e
      | Inr y \<Rightarrow> (case mapM f xs of Inl e \<Rightarrow> Inl e | Inr ys \<Rightarrow> Inr (y # ys)))"

definition actor_entry :: "table \<Rightarrow> cell \<Rightarrow> error + actor" where
  "actor_entry df aid =
     (let rows = rows_of df aid in
      case actor_type_of rows of
        Inl e \<Rightarrow> Inl e
      | Inr atype \<Rightarrow>
          Inr \<lparr>actor_id = aid, actor_type = atype, actor_type_name = type_name atype\<rparr>)"

definition extract_actors :: "reader \<Rightarrow> reader \<Rightarrow> file_bytes \<Rightarrow> error + actor list" where
  "extract_actors read_excel read_csv file_bytes =
     (case load_actors read_excel read_csv file_bytes of
        Inl e \<Rightarrow> Inl e
      | Inr df \<Rightarrow>
          if \<not> has_col df ''Actor_Id'' then Inr []
          else mapM (actor_entry df) (unique (col_of df ''Actor_Id'')))"

subsection \<open>Evaluation\<close>

text \<open>
  \<open>round(x, n)\<close> on a float: to the nearest multiple of \<open>10^-n\<close>, a tie to the even
  one; NaN and the infinities are returned as they are.
\<close>

definition round_half_even :: "real \<Rightarrow> int" where
  "round_half_even x =
     (let f = \<lfloor>x\<rfloor>; d = x - of_int f in
      if d < 1 / 2 then f else if 1 / 2 < d then f + 1 else if even f then f else f + 1)"

fun py_round :: "nat \<Rightarrow> cell \<Rightarrow> cell" where
  "py_round n (Fin x) = Fin (of_int (round_half_even (x * 10 ^ n)) / 10 ^ n)"
| "py_round n c = c"

text \<open>
  The helper \<open>safe_col\<close> of \<open>evaluate\<close>. A numeric cell is never \<open>None\<close>, so the test
  of the source is the test for NaN.
\<close>

definition safe_col :: "table \<Rightarrow> string \<Rightarrow> cell \<Rightarrow> cell list" where
  "safe_col df name dflt =
     (if has_col df name
      then map (\<lambda>v. if \<not> isna v then py_round 6 v else dflt) (col_of df name)
      else replicate (nrows df) dflt)"

definition vut_channels :: "table \<Rightarrow> (string \<times> cell list) list" where
  "vut_channels vut_df =
     [(''t'', safe_col vut_df ''t'' (Fin 0)),
      (''lat'', safe_col vut_df ''VUT_pos_lat'' (Fin 0)),
      (''lng'', safe_col vut_df ''VUT_pos_lng'' (Fin 0)),
      (''heading'', safe_col vut_df ''VUT_heading'' (Fin 0)),
      (''vel_ms'', safe_col vut_df ''VUT_vel_ms'' (Fin 0)),
      (''vel_kmh'', safe_col vut_df ''VUT_vel_kmh'' (Fin 0)),
      (''accl_lat'', safe_col vut_df ''VUT_accl_lat'' (Fin 0)),
      (''accl_lng'', safe_col vut_df ''VUT_accl_lng'' (Fin 0)),
      (''braking_level'', safe_col vut_df ''VUT_braking_level'' (Fin 0)),
      (''throttle_level'', safe_col vut_df ''VUT_throttle_level'' (Fin 0)),
      (''steering_pct'', safe_col vut_df ''VUT_steering_angle_percentage'' (Fin 0)),
      (''ind_left'', safe_col vut_df ''VUT_ind_st_dir_left'' (Fin 0)),
      (''ind_right'', safe_col vut_df ''VUT_ind_st_dir_right'' (Fin 0)),
      (''ind_hazard'', safe_col vut_df ''VUT_ind_st_hazard'' (Fin 0)),
      (''ind_reverse'', safe_col vut_df ''VUT_ind_st_reverse'' (Fin 0)),
      (''ind_braking'', safe_col vut_df ''VUT_ind_st_braking'' (Fin 0))]"

text \<open>
  One entry of the \<open>t\<close> array of a trajectory:
  \<open>round(float(vut_df.loc[vut_df["Step_number"] == s, "t"].values[0]), 4)
    if s in vut_df["Step_number"].values else 0.0\<close>.
\<close>

definition step_time :: "table \<Rightarrow> cell \<Rightarrow> error + cell" where
  "step_time vut_df s =
     (case get_col vut_df ''Step_number'' of
        Inl e \<Rightarrow> Inl e
      | Inr steps \<Rightarrow>
          if any (map (\<lambda>v. cell_eq v s) steps) then
            (case get_col vut_df ''t'' of
               Inl e \<Rightarrow> Inl e
             | Inr t \<Rightarrow>
                 (case iloc0 (select (map (\<lambda>v. cell_eq v s) steps) t) of
                    Inl e \<Rightarrow> Inl e
                  | Inr x \<Rightarrow> Inr (py_round 4 x)))
          else Inr (Fin 0))"

definition trajectory_of :: "table \<Rightarrow> table \<Rightarrow> error + (string \<times> cell list) list" where
  "trajectory_of vut_df a_rows =
     (case get_col a_rows ''Actor_pos_true_lat'' of
        Inl e \<Rightarrow> Inl e
      | Inr lat \<Rightarrow>
          (case get_col a_rows ''Actor_pos_true_lng'' of
             Inl e \<Rightarrow> Inl e
           | Inr lng \<Rightarrow>
               let heading =
                     (if has_col a_rows ''Actor_heading_true''
                      then map (\<lambda>v. if \<not> isna v then py_round 4 v else Fin 0)
                             (col_of a_rows ''Actor_heading_true'')
                      else replicate (nrows a_rows) (Fin 0))
               in
               (case get_col a_rows ''Step_number'' of
                  Inl e \<Rightarrow> Inl e
                | Inr steps \<Rightarrow>
                    (case mapM (step_time vut_df) steps of
                       Inl e \<Rightarrow> Inl e
                     | Inr t \<Rightarrow>
                         Inr [(''lat'', map (py_round 6) lat),
                              (''lng'', map (py_round 6) lng),
                              (''heading'', heading),
                              (''t'', t)]))))"

record actor_result = actor +
  trajectory :: "(string \<times> cell list) list"

definition actor_result_of :: "table \<Rightarrow> table \<Rightarrow> cell \<Rightarrow> error + actor_result" where
  "actor_result_of vut_df actor_df aid =
     (let a_rows = rows_of actor_df aid in
      case actor_type_of a_rows of
        Inl e \<Rightarrow> Inl e
      | Inr atype \<Rightarrow>
          (case trajectory_of vut_df a_rows of
             Inl e \<Rightarrow> Inl e
           | Inr traj \<Rightarrow>
               Inr \<lparr>actor_id = aid, actor_type = atype, actor_type_name = type_name atype,
                    trajectory = traj\<rparr>))"

record validation =
  valid :: bool
  errors :: "string list"
  warnings :: "string list"

record evaluation =
  test_case_id :: string
  run_id :: string
  validation :: validation
  vut :: "(string \<times> cell list) list"
  actors :: "actor_result list"

text \<open>
  The block under \<open>if actor_bytes is not None\<close>: the errors and warnings of the actor
  table, and the actor entries.
\<close>

definition evaluate_actors ::
  "reader \<Rightarrow> reader \<Rightarrow> table \<Rightarrow> file_bytes \<Rightarrow> error + (string list \<times> string list \<times> actor_result list)" where
  "evaluate_actors read_excel read_csv vut_df actor_bytes =
     (case load_actors read_excel read_csv actor_bytes of
        Inl e \<Rightarrow> Inl e
      | Inr actor_df \<Rightarrow>
          let (actor_errors, actor_warnings) = validate_actors actor_df in
          if has_col actor_df ''Actor_Id'' then
            (case mapM (actor_result_of vut_df actor_df) (unique (col_of actor_df ''Actor_Id'')) of
               Inl e \<Rightarrow> Inl e
             | Inr actors_result \<Rightarrow> Inr (actor_errors, actor_warnings, actors_result))
          else Inr (actor_errors, actor_warnings, []))"

definition evaluate ::
  "reader \<Rightarrow> reader \<Rightarrow> file_bytes \<Rightarrow> file_bytes option \<Rightarrow> string \<Rightarrow> string \<Rightarrow> error + evaluation" where
  "evaluate read_excel read_csv vut_bytes actor_bytes tc_id r_id =
     (case load_vut read_excel read_csv vut_bytes of
        Inl e \<Rightarrow> Inl e
      | Inr vut_df \<Rightarrow>
          let (vut_errors, vut_warnings) = validate_vut vut_df;
              vut_data = vut_channels vut_df
          in
          (case (case actor_bytes of
                   None \<Rightarrow> Inr ([], [], [])
                 | Some ab \<Rightarrow> evaluate_actors read_excel read_csv vut_df ab) of
             Inl e \<Rightarrow> Inl e
           | Inr (actor_errors, actor_warnings, actors_result) \<Rightarrow>
               let all_errors = vut_errors @ actor_errors;
                   all_warnings = vut_warnings @ actor_warnings
               in
               Inr \<lparr>test_case_id = tc_id, run_id = r_id,
                    validation = \<lparr>valid = (length all_errors = 0), errors = all_errors,
                                   warnings = all_warnings\<rparr>,
                    vut = vut_data, actors = actors_result\<rparr>))"

section \<open>main.py\<close>

text \<open>
  The upload route, before it stores a run: an actor file on which \<open>extract_actors\<close>
  raises, or finds no actor, is stored as absent.
\<close>

definition stored_actor_bytes :: "reader \<Rightarrow> reader \<Rightarrow> file_bytes option \<Rightarrow> file_bytes option" where
  "stored_actor_bytes read_excel read_csv actor_bytes =
     (case actor_bytes of
        None \<Rightarrow> None
      | Some ab \<Rightarrow>
          (case extract_actors read_excel read_csv ab of
             Inl e \<Rightarrow> None
           | Inr found \<Rightarrow> if found = [] then None else Some ab))"

section \<open>Row order\<close>

text \<open>
  The rows of a table in another order, to state what does not depend on row order:
  row \<open>k\<close> of \<open>permute_rows p df\<close> is row \<open>p[k]\<close> of \<open>df\<close>, and \<open>p\<close> is a permutation
  of the row indices when \<open>sort p = [0..<nrows df]\<close>.
\<close>

definition permute_rows :: "nat list \<Rightarrow> table \<Rightarrow> table" where
  "permute_rows p df = df\<lparr>cols := map (\<lambda>nc. (fst nc, map (\<lambda>i. snd nc ! i) p)) (cols df)\<rparr>"

section \<open>Example inputs\<close>

text \<open>A reader for buffers that are not spreadsheets: \<open>pd.read_excel\<close> raising.\<close>

definition no_excel :: reader where
  "no_excel bs = Inl ReadError"

text \<open>A header-only vehicle file: three column names, no data row.\<close>

definition ex_header_only :: table where
  "ex_header_only =
     \<lparr>nrows = 0, cols = [('' Time'', []), (''Step_number'', []), (''Unnamed: 2'', [])]\<rparr>"

text \<open>A vehicle table without the heading column.\<close>

definition ex_vut_no_heading :: table where
  "ex_vut_no_heading =
     \<lparr>nrows = 1,
      cols = [(''Time'', [Fin 0]), (''Step_number'', [Fin 1]), (''VUT_pos_lat'', [Fin 95]),
              (''VUT_pos_lng'', [Fin 400]), (''VUT_vel_abs'', [Fin (-1)])]\<rparr>"

text \<open>
  A vehicle table whose first \<open>Time\<close> value is missing, before and after loading, and a
  table with only a \<open>Time\<close> column.
\<close>

definition ex_time_nan :: table where
  "ex_time_nan =
     \<lparr>nrows = 2,
      cols = [(''Time'', [NaN, Fin 1]), (''Step_number'', [Fin 1, Fin 2]),
              (''VUT_pos_lat'', [Fin 1, Fin 1]), (''VUT_pos_lng'', [Fin 103, Fin 103]),
              (''VUT_heading'', [Fin 0, Fin 0]), (''VUT_vel_abs'', [Fin 5, Fin 5])]\<rparr>"

definition ex_time_nan_loaded :: table where
  "ex_time_nan_loaded =
     \<lparr>nrows = 2,
      cols = [(''Time'', [NaN, Fin 1]), (''Step_number'', [Fin 1, Fin 2]),
              (''VUT_pos_lat'', [Fin 1, Fin 1]), (''VUT_pos_lng'', [Fin 103, Fin 103]),
              (''VUT_heading'', [Fin 0, Fin 0]), (''VUT_vel_abs'', [Fin 5, Fin 5]),
              (''t'', [NaN, NaN]), (''VUT_vel_ms'', [Fin 5, Fin 5]),
              (''VUT_vel_kmh'', [Fin 18, Fin 18])]\<rparr>"

definition ex_time :: table where
  "ex_time = \<lparr>nrows = 3, cols = [(''Time'', [Fin 5, Fin 7, NaN])]\<rparr>"

text \<open>A loaded one-row vehicle table with latitude 95.\<close>

definition ex_vut_lat95 :: table where
  "ex_vut_lat95 =
     \<lparr>nrows = 1,
      cols = [(''Time'', [Fin 0]), (''Step_number'', [Fin 1]), (''VUT_pos_lat'', [Fin 95]),
              (''VUT_pos_lng'', [Fin 103]), (''VUT_heading'', [Fin 90]), (''VUT_vel_abs'', [Fin 5]),
              (''t'', [Fin 0]), (''VUT_vel_ms'', [Fin 5]), (''VUT_vel_kmh'', [Fin 18])]\<rparr>"

text \<open>
  A two-row vehicle table with increasing \<open>Time\<close> and one latitude out of range, and a
  two-row actor table with a longitude out of range and a fractional type code.
\<close>

definition ex_vut_sorted :: table where
  "ex_vut_sorted =
     \<lparr>nrows = 2,
      cols = [(''Time'', [Fin 0, Fin 1]), (''Step_number'', [Fin 1, Fin 2]),
              (''VUT_pos_lat'', [Fin 1, Fin 95]), (''VUT_pos_lng'', [Fin 103, Fin 103]),
              (''VUT_heading'', [Fin 0, Fin 0]), (''VUT_vel_abs'', [Fin 5, Fin 5])]\<rparr>"

definition ex_actors_two :: table where
  "ex_actors_two =
     \<lparr>nrows = 2,
      cols = [(''Time'', [Fin 0, Fin 1]), (''Step_number'', [Fin 1, Fin 2]),
              (''Actor_Id'', [Fin 7, Fin 7]), (''Actor_type'', [Fin 4, Fin (9 / 2)]),
              (''Actor_pos_true_lat'', [Fin 1, Fin 1]), (''Actor_pos_true_lng'', [Fin 103, Fin 400]),
              (''Actor_heading_true'', [NaN, Fin 0])]\<rparr>"

text \<open>
  Actor tables with velocity columns: one without the longitudinal column, one with all
  three columns (a zero, a non-zero and a missing absolute velocity).
\<close>

definition ex_actors_no_lng :: table where
  "ex_actors_no_lng =
     \<lparr>nrows = 1,
      cols = [(''Actor_Id'', [Fin 1]), (''Actor_vel_abs'', [Fin 0]), (''Actor_vel_lat'', [Fin 3])]\<rparr>"

definition ex_actors_345 :: table where
  "ex_actors_345 =
     \<lparr>nrows = 3,
      cols = [(''Actor_Id'', [Fin 1, Fin 1, Fin 1]), (''Actor_vel_abs'', [Fin 0, Fin 2, NaN]),
              (''Actor_vel_lat'', [Fin 3, Fin 3, NaN]), (''Actor_vel_lng'', [Fin 4, Fin 4, Fin 2])]\<rparr>"

text \<open>
  Actor tables with identifiers and type codes: one actor whose first type code is
  missing, and two actors on alternating rows.
\<close>

definition ex_actors_type_nan :: table where
  "ex_actors_type_nan =
     \<lparr>nrows = 2, cols = [(''Actor_Id'', [Fin 7, Fin 7]), (''Actor_type'', [NaN, Fin 4])]\<rparr>"

definition ex_actors_ids :: table where
  "ex_actors_ids =
     \<lparr>nrows = 4,
      cols = [(''Actor_Id'', [Fin 7, Fin 3, Fin 7, Fin 3]),
              (''Actor_type'', [Fin 4, Fin 25, NaN, Fin 2])]\<rparr>"

text \<open>
  A reader that parses one vehicle file and rejects every other buffer, and the table
  that \<open>load_vut\<close> returns for that file.
\<close>

definition ex_csv :: reader where
  "ex_csv bs = (if bs = ''Time\<newline>5\<newline>7\<newline>\<newline>'' then Inr ex_time else Inl ReadError)"

definition ex_time_loaded :: table where
  "ex_time_loaded =
     \<lparr>nrows = 3, cols = [(''Time'', [Fin 5, Fin 7, NaN]), (''t'', [Fin 0, Fin 2, NaN])]\<rparr>"

text \<open>
  A run that passes validation: a one-row vehicle table with an infinite lateral
  acceleration, before and after loading; a one-row actor table with a missing latitude
  and a missing heading; the reader of the two files; and the result of the evaluation.
\<close>

definition ex_vut_inf :: table where
  "ex_vut_inf =
     \<lparr>nrows = 1,
      cols = [(''Time'', [Fin 0]), (''Step_number'', [Fin 1]), (''VUT_pos_lat'', [Fin 1]),
              (''VUT_pos_lng'', [Fin 103]), (''VUT_heading'', [Fin 0]), (''VUT_vel_abs'', [Fin 5]),
              (''VUT_accl_lat'', [PInf])]\<rparr>"

definition ex_vut_inf_loaded :: table where
  "ex_vut_inf_loaded =
     \<lparr>nrows = 1,
      cols = [(''Time'', [Fin 0]), (''Step_number'', [Fin 1]), (''VUT_pos_lat'', [Fin 1]),
              (''VUT_pos_lng'', [Fin 103]), (''VUT_heading'', [Fin 0]), (''VUT_vel_abs'', [Fin 5]),
              (''VUT_accl_lat'', [PInf]), (''t'', [Fin 0]), (''VUT_vel_ms'', [Fin 5]),
              (''VUT_vel_kmh'', [Fin 18])]\<rparr>"

definition ex_actor_gap :: table where
  "ex_actor_gap =
     \<lparr>nrows = 1,
      cols = [(''Time'', [Fin 0]), (''Step_number'', [Fin 1]), (''Actor_Id'', [Fin 7]),
              (''Actor_type'', [Fin 4]), (''Actor_pos_true_lat'', [NaN]),
              (''Actor_pos_true_lng'', [Fin 103]), (''Actor_heading_true'', [NaN])]\<rparr>"

definition ex_csv_gap :: reader where
  "ex_csv_gap bs =
     (if bs = ''V'' then Inr ex_vut_inf else if bs = ''A'' then Inr ex_actor_gap else Inl ReadError)"

definition ex_result_gap :: evaluation where
  "ex_result_gap =
     \<lparr>test_case_id = ''TC'', run_id = ''r0'',
      validation = \<lparr>valid = True, errors = [], warnings = []\<rparr>,
      vut = [(''t'', [Fin 0]), (''lat'', [Fin 1]), (''lng'', [Fin 103]), (''heading'', [Fin 0]),
             (''vel_ms'', [Fin 5]), (''vel_kmh'', [Fin 18]), (''accl_lat'', [PInf]),
             (''accl_lng'', [Fin 0]), (''braking_level'', [Fin 0]), (''throttle_level'', [Fin 0]),
             (''steering_pct'', [Fin 0]), (''ind_left'', [Fin 0]), (''ind_right'', [Fin 0]),
             (''ind_hazard'', [Fin 0]), (''ind_reverse'', [Fin 0]), (''ind_braking'', [Fin 0])],
      actors = [\<lparr>actor_id = Fin 7, actor_type = 4, actor_type_name = ''passenger_vehicle'',
                 trajectory = [(''lat'', [NaN]), (''lng'', [Fin 103]), (''heading'', [Fin 0]),
                               (''t'', [Fin 0])]\<rparr>]\<rparr>"

section \<open>Properties\<close>

subsection \<open>Columns of a table\<close>

lemma has_col_iff: "has_col df name \<longleftrightarrow> map_of (cols df) name \<noteq> None"
  by (simp add: has_col_def map_of_eq_None_iff)

lemma get_col_set_col: "get_col (set_col n c df) m = (if m = n then Inr c else get_col df m)"
  by (simp add: get_col_def set_col_def update_conv')

lemma col_of_set_col: "col_of (set_col n c df) m = (if m = n then c else col_of df m)"
  by (simp add: col_of_def set_col_def update_conv')

lemma has_col_set_col: "has_col (set_col n c df) m \<longleftrightarrow> m = n \<or> has_col df m"
  by (simp add: has_col_iff set_col_def update_conv')

lemma nrows_set_col: "nrows (set_col n c df) = nrows df"
  by (simp add: set_col_def)

lemma get_col_col_of: "get_col df name = Inr c \<Longrightarrow> col_of df name = c"
  by (simp add: get_col_def col_of_def split: option.splits)

lemma get_col_has_col: "get_col df name = Inr c \<Longrightarrow> has_col df name"
  by (simp add: get_col_def has_col_iff split: option.splits)

lemma has_col_get_col: "has_col df name \<Longrightarrow> get_col df name = Inr (col_of df name)"
  by (auto simp add: get_col_def has_col_iff col_of_def split: option.splits)

lemma wf_table_length:
  "wf_table df \<Longrightarrow> map_of (cols df) name = Some c \<Longrightarrow> length c = nrows df"
  by (auto simp: wf_table_def list_all_iff dest!: map_of_SomeD)

lemma clean_columns_length:
  assumes "list_all (\<lambda>nc. length (snd nc) = nrows raw) (cols raw)"
    and "map_of (cols (clean_columns raw)) name = Some c"
  shows "length c = nrows raw"
proof -
  from assms(2) have "(name, c) \<in> set (cols (clean_columns raw))"
    by (rule map_of_SomeD)
  then obtain nc where "nc \<in> set (cols raw)" "c = snd nc"
    by (auto simp: clean_columns_def)
  with assms(1) show ?thesis by (simp add: list_all_iff)
qed

subsection \<open>Validation\<close>

text \<open>
  C10: \<open>validate_actors\<close> returns an empty warnings list on every table.
\<close>

theorem validate_actors_no_warnings: "snd (validate_actors df) = []"
  by (simp add: validate_actors_def Let_def)

text \<open>
  C5: on a table that lacks a required column, \<open>validate_vut\<close> and \<open>validate_actors\<close>
  return one error, the message that lists every missing required column in the order
  of the list of required columns, and no warning: no value check has run.
\<close>

theorem validate_missing_columns:
  "((\<exists>c \<in> set VUT_REQUIRED_COLS. \<not> has_col df c) \<longrightarrow>
      validate_vut df =
        ([''Missing required columns: '' @
          join '', '' (filter (\<lambda>c. \<not> has_col df c) VUT_REQUIRED_COLS)], []))
   \<and> ((\<exists>c \<in> set ACTOR_REQUIRED_COLS. \<not> has_col df c) \<longrightarrow>
      validate_actors df =
        ([''Missing required columns: '' @
          join '', '' (filter (\<lambda>c. \<not> has_col df c) ACTOR_REQUIRED_COLS)], []))"
proof -
  have ne: "filter P xs \<noteq> [] \<longleftrightarrow> (\<exists>x \<in> set xs. P x)" for P :: "string \<Rightarrow> bool" and xs
    by (simp add: filter_empty_conv)
  show ?thesis
    unfolding validate_vut_def validate_actors_def Let_def missing_msg_def ne
    by simp
qed

theorem validate_missing_columns_witness:
  "(\<exists>c \<in> set VUT_REQUIRED_COLS. \<not> has_col ex_vut_no_heading c)
   \<and> validate_vut ex_vut_no_heading = ([''Missing required columns: VUT_heading''], [])
   \<and> (\<exists>c \<in> set ACTOR_REQUIRED_COLS. \<not> has_col ex_vut_no_heading c)
   \<and> validate_actors ex_vut_no_heading =
       ([''Missing required columns: Actor_Id, Actor_type, Actor_pos_true_lat, Actor_pos_true_lng, Actor_heading_true''], [])"
  using validate_missing_columns [of ex_vut_no_heading]
  by (simp add: ex_vut_no_heading_def has_col_def VUT_REQUIRED_COLS_def ACTOR_REQUIRED_COLS_def)

subsection \<open>Loading the vehicle table\<close>

text \<open>
  C9: when the buffer parses to a table with a \<open>Time\<close> column and no data row,
  \<open>load_vut\<close> raises IndexError (at \<open>df["Time"].iloc[0]\<close>) and returns no table.
\<close>

theorem load_vut_header_only:
  assumes "read_tabular read_excel read_csv file_bytes = Inr raw"
    and "wf_table raw"
    and "has_col (clean_columns raw) ''Time''"
    and "nrows raw = 0"
  shows "load_vut read_excel read_csv file_bytes = Inl IndexError"
proof -
  from assms(3) obtain c where c: "map_of (cols (clean_columns raw)) ''Time'' = Some c"
    by (auto simp: has_col_iff)
  from assms(2) have "list_all (\<lambda>nc. length (snd nc) = nrows raw) (cols raw)"
    by (simp add: wf_table_def)
  from clean_columns_length [OF this c] assms(4) have "c = []" by simp
  with c have "get_col (clean_columns raw) ''Time'' = Inr []"
    by (simp add: get_col_def)
  with assms(1) show ?thesis
    by (simp add: load_vut_def iloc0_def)
qed

theorem load_vut_header_only_witness:
  "read_tabular no_excel (\<lambda>bs. Inr ex_header_only) ''Time,Step_number,'' = Inr ex_header_only
   \<and> wf_table ex_header_only
   \<and> has_col (clean_columns ex_header_only) ''Time''
   \<and> nrows ex_header_only = 0
   \<and> load_vut no_excel (\<lambda>bs. Inr ex_header_only) ''Time,Step_number,'' = Inl IndexError"
proof -
  have 1: "read_tabular no_excel (\<lambda>bs. Inr ex_header_only) ''Time,Step_number,'' = Inr ex_header_only"
    by (simp add: read_tabular_def)
  have 2: "wf_table ex_header_only"
    by (simp add: wf_table_def ex_header_only_def)
  have 3: "has_col (clean_columns ex_header_only) ''Time''"
    by (simp add: has_col_def clean_columns_def ex_header_only_def strip_def is_space_def
        startswith_def)
  have 4: "nrows ex_header_only = 0"
    by (simp add: ex_header_only_def)
  from load_vut_header_only [OF 1 2 3 4] 1 2 3 4 show ?thesis by simp
qed

subsection \<open>Relative time\<close>

lemma cell_sub_fin_nan: "cell_sub v (Fin c) = NaN \<longleftrightarrow> v = NaN"
  by (cases v) (simp_all add: cell_sub_def)

lemma cell_sub_shift: "cell_sub (cell_sub a (Fin c)) (cell_sub b (Fin c)) = cell_sub a b"
  by (cases a; cases b) (simp_all add: cell_sub_def)

lemma dropna_shift: "dropna (map (\<lambda>v. cell_sub v (Fin c)) xs) = map (\<lambda>v. cell_sub v (Fin c)) (dropna xs)"
  by (induction xs) (simp_all add: dropna_def isna_def cell_sub_fin_nan)

lemma map2_shift:
  "map2 cell_sub (map (\<lambda>v. cell_sub v (Fin c)) ys) (map (\<lambda>v. cell_sub v (Fin c)) xs) = map2 cell_sub ys xs"
  by (induction ys xs rule: list_induct2') (simp_all add: cell_sub_shift)

lemma diff_shift: "diff (map (\<lambda>v. cell_sub v (Fin c)) xs) = diff xs"
proof (cases xs)
  case Nil
  then show ?thesis by (simp add: diff_def)
next
  case (Cons x ys)
  have "map2 cell_sub (map (\<lambda>v. cell_sub v (Fin c)) ys) (map (\<lambda>v. cell_sub v (Fin c)) (x # ys))
      = map2 cell_sub ys (x # ys)"
    by (rule map2_shift)
  with Cons show ?thesis by (simp add: diff_def)
qed

lemma decreasing_shift: "decreasing (map (\<lambda>v. cell_sub v (Fin c)) xs) \<longleftrightarrow> decreasing xs"
  by (simp add: decreasing_def Let_def dropna_shift diff_shift)

text \<open>On a column of finite numbers, the rule of the validator is the usual order.\<close>

lemma any_map2_sub:
  "any (map (\<lambda>v. cell_lt v (Fin 0)) (dropna (map2 cell_sub (map Fin ys) (map Fin xs))))
    \<longleftrightarrow> (\<exists>i. i < length ys \<and> i < length xs \<and> ys ! i < xs ! i)"
proof (induction ys xs rule: list_induct2')
  case (4 y ys x xs)
  have "(\<exists>i. i < length (y # ys) \<and> i < length (x # xs) \<and> (y # ys) ! i < (x # xs) ! i)
     \<longleftrightarrow> y < x \<or> (\<exists>i. i < length ys \<and> i < length xs \<and> ys ! i < xs ! i)"
    (is "?L \<longleftrightarrow> ?R")
  proof
    assume ?L
    then obtain i where i: "i < length (y # ys)" "i < length (x # xs)" "(y # ys) ! i < (x # xs) ! i"
      by blast
    show ?R
    proof (cases i)
      case 0
      with i show ?thesis by simp
    next
      case (Suc j)
      with i show ?thesis by auto
    qed
  next
    assume ?R
    then show ?L
    proof
      assume "y < x"
      then have "0 < length (y # ys) \<and> 0 < length (x # xs) \<and> (y # ys) ! 0 < (x # xs) ! 0" by simp
      then show ?L by blast
    next
      assume "\<exists>i. i < length ys \<and> i < length xs \<and> ys ! i < xs ! i"
      then obtain i where "i < length ys \<and> i < length xs \<and> ys ! i < xs ! i" by blast
      then have "Suc i < length (y # ys) \<and> Suc i < length (x # xs) \<and> (y # ys) ! Suc i < (x # xs) ! Suc i"
        by simp
      then show ?L by blast
    qed
  qed
  with 4 show ?case
    by (simp add: any_def dropna_def isna_def cell_sub_def)
qed (simp_all add: any_def dropna_def)

lemma decreasing_finite: "decreasing (map Fin xs) \<longleftrightarrow> \<not> sorted xs"
proof (cases xs)
  case Nil
  then show ?thesis by (simp add: decreasing_def dropna_def)
next
  case (Cons x ys)
  have dn: "dropna (map Fin zs) = map Fin zs" for zs
    by (induction zs) (simp_all add: dropna_def isna_def)
  have "decreasing (map Fin xs) \<longleftrightarrow>
     1 < length xs \<and> any (map (\<lambda>v. cell_lt v (Fin 0)) (dropna (map2 cell_sub (map Fin ys) (map Fin (x # ys)))))"
    using Cons by (simp add: decreasing_def Let_def dn diff_def dropna_def isna_def)
  also have "\<dots> \<longleftrightarrow> (\<exists>i. i < length ys \<and> ys ! i < (x # ys) ! i)"
    unfolding any_map2_sub using Cons by auto
  also have "\<dots> \<longleftrightarrow> \<not> (\<forall>i. Suc i < length (x # ys) \<longrightarrow> (x # ys) ! i \<le> (x # ys) ! Suc i)"
    by (auto simp: not_le)
  also have "\<dots> \<longleftrightarrow> \<not> sorted (x # ys)"
    by (simp only: sorted_iff_nth_Suc)
  finally show ?thesis using Cons by simp
qed


text \<open>Evaluating \<open>any\<close> on a given list.\<close>

lemma any_Nil: "any [] = False"
  by (simp add: any_def)

lemma any_Cons: "any (b # bs) = (b \<or> any bs)"
  by (auto simp: any_def)


lemma decreasing_lost_example:
  "map (\<lambda>v. cell_sub v NaN) [NaN, Fin 2, Fin 1] = [NaN, NaN, NaN]
   \<and> decreasing [NaN, Fin 2, Fin 1] \<and> \<not> decreasing [NaN, NaN, NaN]"
  by (simp add: cell_sub_def decreasing_def dropna_def isna_def diff_def any_Nil any_Cons)


subsection \<open>Range rules\<close>

lemma outside_iff:
  "outside lo hi c \<longleftrightarrow> (\<exists>v \<in> set c. v \<noteq> NaN \<and> (cell_lt v (Fin lo) \<or> cell_lt (Fin hi) v))"
  by (auto simp: outside_def Let_def any_def dropna_def isna_def cell_gt_def filter_empty_conv)

lemma negative_iff: "negative c \<longleftrightarrow> (\<exists>v \<in> set c. v \<noteq> NaN \<and> cell_lt v (Fin 0))"
  by (auto simp: negative_def Let_def any_def dropna_def isna_def filter_empty_conv)

lemma required_vut:
  "(\<forall>c \<in> set VUT_REQUIRED_COLS. has_col df c) \<Longrightarrow> filter (\<lambda>c. \<not> has_col df c) VUT_REQUIRED_COLS = []"
  by (simp add: filter_empty_conv)

text \<open>
  C6: on a table with every required column, the errors of \<open>validate_vut\<close> are, in this
  order, one message for each of the rules that some non-missing value breaks (latitude
  outside -90 to 90, longitude outside -180 to 360, heading outside 0 to 360, negative
  absolute velocity), followed by the message of the \<open>Time\<close> rule if it applies. A
  missing value breaks no rule, so a column of missing values gives no range error.
  A one-row table with latitude 95 and the other values in range gives exactly the
  latitude message.
\<close>

theorem validate_vut_range_errors:
  assumes "\<forall>c \<in> set VUT_REQUIRED_COLS. has_col df c"
  shows "fst (validate_vut df) =
      (if \<exists>v \<in> set (col_of df ''VUT_pos_lat''). v \<noteq> NaN \<and> (cell_lt v (Fin (-90)) \<or> cell_lt (Fin 90) v)
       then [''VUT_pos_lat contains values outside the valid range (-90 to 90)''] else [])
    @ (if \<exists>v \<in> set (col_of df ''VUT_pos_lng''). v \<noteq> NaN \<and> (cell_lt v (Fin (-180)) \<or> cell_lt (Fin 360) v)
       then [''VUT_pos_lng contains values outside the valid range (-180 to 360)''] else [])
    @ (if \<exists>v \<in> set (col_of df ''VUT_heading''). v \<noteq> NaN \<and> (cell_lt v (Fin 0) \<or> cell_lt (Fin 360) v)
       then [''VUT_heading contains values outside the valid range (0 to 360)''] else [])
    @ (if \<exists>v \<in> set (col_of df ''VUT_vel_abs''). v \<noteq> NaN \<and> cell_lt v (Fin 0)
       then [''VUT_vel_abs contains negative values''] else [])
    @ (if decreasing (col_of df ''Time'')
       then [''Time column is not monotonically non-decreasing''] else [])
   \<and> (col_of df ''VUT_pos_lat'' = [Fin 95]
        \<and> col_of df ''VUT_pos_lng'' = [Fin lng] \<and> -180 \<le> lng \<and> lng \<le> 360
        \<and> col_of df ''VUT_heading'' = [Fin h] \<and> 0 \<le> h \<and> h \<le> 360
        \<and> col_of df ''VUT_vel_abs'' = [Fin v] \<and> 0 \<le> v
        \<and> col_of df ''Time'' = [tm]
      \<longrightarrow> fst (validate_vut df) = [''VUT_pos_lat contains values outside the valid range (-90 to 90)''])"
proof -
  have 1: "filter (\<lambda>c. \<not> has_col df c) VUT_REQUIRED_COLS = []"
    using assms by (rule required_vut)
  have 2: "decreasing [tm] = False"
    by (simp add: decreasing_def dropna_def)
  show ?thesis
    unfolding validate_vut_def Let_def 1 outside_iff negative_iff
    by (simp add: 2)
qed

theorem validate_vut_range_errors_witness:
  "list_all (has_col ex_vut_lat95) VUT_REQUIRED_COLS
   \<and> fst (validate_vut ex_vut_lat95) = [''VUT_pos_lat contains values outside the valid range (-90 to 90)'']"
proof -
  have 1: "\<forall>c \<in> set VUT_REQUIRED_COLS. has_col ex_vut_lat95 c"
    by (simp add: VUT_REQUIRED_COLS_def has_col_def ex_vut_lat95_def)
  then have 2: "list_all (has_col ex_vut_lat95) VUT_REQUIRED_COLS"
    by (simp only: list_all_iff)
  from validate_vut_range_errors [OF 1, of 103 90 5 "Fin 0"]
  have "fst (validate_vut ex_vut_lat95) = [''VUT_pos_lat contains values outside the valid range (-90 to 90)'']"
    by (simp add: col_of_def ex_vut_lat95_def decreasing_def dropna_def)
  with 2 show ?thesis ..
qed

subsection \<open>Row order\<close>

lemma map_of_map_snd:
  "map_of (map (\<lambda>nc. (fst nc, f (snd nc))) xs) k = map_option f (map_of xs k)"
  by (induction xs) auto

lemma map_of_permute_rows:
  "map_of (cols (permute_rows p df)) name
     = map_option (\<lambda>c. map (\<lambda>i. c ! i) p) (map_of (cols df) name)"
  using map_of_map_snd [of "\<lambda>c. map (\<lambda>i. c ! i) p" "cols df" name]
  by (simp add: permute_rows_def)

lemma has_col_permute_rows: "has_col (permute_rows p df) name = has_col df name"
  by (simp add: has_col_def permute_rows_def comp_def)

lemma set_permuted:
  assumes "sort p = [0..<length c]"
  shows "set (map (\<lambda>i. c ! i) p) = set c"
proof -
  have "set p = set (sort p)" by simp
  also have "\<dots> = {0..<length c}" using assms by simp
  finally have "set p = {0..<length c}" .
  then have "set (map (\<lambda>i. c ! i) p) = (\<lambda>i. c ! i) ` {0..<length c}" by simp
  also have "\<dots> = set c" by (auto simp: set_conv_nth)
  finally show ?thesis .
qed

lemma col_of_permute_rows:
  assumes "wf_table df" "sort p = [0..<nrows df]"
  shows "set (col_of (permute_rows p df) name) = set (col_of df name)"
proof (cases "map_of (cols df) name")
  case None
  then show ?thesis by (simp add: col_of_def map_of_permute_rows)
next
  case (Some c)
  with assms(1) have "length c = nrows df" by (rule wf_table_length)
  with assms(2) have "sort p = [0..<length c]" by simp
  then have "set (map (\<lambda>i. c ! i) p) = set c" by (rule set_permuted)
  with Some show ?thesis by (simp add: col_of_def map_of_permute_rows)
qed

lemma outside_set: "set c = set c' \<Longrightarrow> outside lo hi c = outside lo hi c'"
  by (simp add: outside_iff)

lemma negative_set: "set c = set c' \<Longrightarrow> negative c = negative c'"
  by (simp add: negative_iff)

lemma non_integer_set:
  "0 < length (filter (\<lambda>x. \<not> is_integer x) (dropna c)) \<longleftrightarrow> (\<exists>v \<in> set c. v \<noteq> NaN \<and> \<not> is_integer v)"
  by (auto simp: dropna_def isna_def filter_empty_conv)

text \<open>
  C7, as amended: for every permutation of the rows of a table, \<open>validate_actors\<close>
  returns the same errors (and warnings), and \<open>validate_vut\<close> returns the same errors
  apart from the message of the \<open>Time\<close> rule, which compares each row with the row
  before it.
\<close>

theorem validate_row_order:
  assumes "wf_table df" and "sort p = [0..<nrows df]"
  shows "validate_actors (permute_rows p df) = validate_actors df
    \<and> filter (\<lambda>e. e \<noteq> ''Time column is not monotonically non-decreasing'') (fst (validate_vut (permute_rows p df)))
      = filter (\<lambda>e. e \<noteq> ''Time column is not monotonically non-decreasing'') (fst (validate_vut df))"
proof -
  note s = col_of_permute_rows [OF assms]
  have a: "validate_actors (permute_rows p df) = validate_actors df"
    unfolding validate_actors_def Let_def has_col_permute_rows non_integer_set
      outside_set [OF s] s ..
  have v: "filter (\<lambda>e. e \<noteq> ''Time column is not monotonically non-decreasing'') (fst (validate_vut (permute_rows p df)))
      = filter (\<lambda>e. e \<noteq> ''Time column is not monotonically non-decreasing'') (fst (validate_vut df))"
    unfolding validate_vut_def Let_def has_col_permute_rows
      outside_set [OF s] negative_set [OF s]
    by simp
  from a v show ?thesis ..
qed

text \<open>
  C7 as stated fails for \<open>validate_vut\<close>: swapping the two rows of a table with
  \<open>Time = [0, 1]\<close> adds the error of the \<open>Time\<close> rule.
\<close>

theorem validate_row_order_counterexample:
  "wf_table ex_vut_sorted \<and> sort [1, 0] = [0..<nrows ex_vut_sorted]
   \<and> fst (validate_vut ex_vut_sorted)
       = [''VUT_pos_lat contains values outside the valid range (-90 to 90)'']
   \<and> fst (validate_vut (permute_rows [1, 0] ex_vut_sorted))
       = [''VUT_pos_lat contains values outside the valid range (-90 to 90)'',
          ''Time column is not monotonically non-decreasing'']"
  by (simp add: wf_table_def permute_rows_def validate_vut_def ex_vut_sorted_def VUT_REQUIRED_COLS_def has_col_def
        col_of_def outside_def negative_def decreasing_def dropna_def isna_def any_Nil any_Cons
        cell_gt_def diff_def cell_sub_def numeral_2_eq_2)

theorem validate_row_order_witness:
  "wf_table ex_actors_two \<and> sort [1, 0] = [0..<nrows ex_actors_two]
   \<and> validate_actors (permute_rows [1, 0] ex_actors_two) = validate_actors ex_actors_two
   \<and> validate_actors ex_actors_two =
       ([''Actor_pos_true_lng contains values outside the valid range (-180 to 360)'',
         ''Actor_type contains non-integer values''], [])
   \<and> filter (\<lambda>e. e \<noteq> ''Time column is not monotonically non-decreasing'')
        (fst (validate_vut (permute_rows [1, 0] ex_vut_sorted)))
      = filter (\<lambda>e. e \<noteq> ''Time column is not monotonically non-decreasing'')
        (fst (validate_vut ex_vut_sorted))"
proof -
  have 1: "wf_table ex_actors_two" "wf_table ex_vut_sorted"
    by (simp_all add: wf_table_def ex_actors_two_def ex_vut_sorted_def)
  have 2: "sort [1, 0] = [0..<nrows ex_actors_two]" "sort [1, 0] = [0..<nrows ex_vut_sorted]"
    by (simp_all add: ex_actors_two_def ex_vut_sorted_def numeral_2_eq_2)
  have 3: "validate_actors ex_actors_two =
       ([''Actor_pos_true_lng contains values outside the valid range (-180 to 360)'',
         ''Actor_type contains non-integer values''], [])"
    by (simp add: validate_actors_def ex_actors_two_def ACTOR_REQUIRED_COLS_def has_col_def
        col_of_def outside_def dropna_def isna_def any_Nil any_Cons cell_gt_def)
  from validate_row_order [OF 1(1) 2(1)] validate_row_order [OF 1(2) 2(2)] 1 2 3
  show ?thesis by simp
qed

subsection \<open>Loading the actor table\<close>

text \<open>
  The test before the reconstruction asks for the columns \<open>Actor_vel_abs\<close> and
  \<open>Actor_vel_lat\<close> only; the reconstruction then reads \<open>Actor_vel_lng\<close> as well.
\<close>

lemma load_actors_missing_lng:
  assumes "read_tabular read_excel read_csv file_bytes = Inr raw"
    and "has_col (clean_columns raw) ''Actor_vel_abs''"
    and "has_col (clean_columns raw) ''Actor_vel_lat''"
    and "\<not> has_col (clean_columns raw) ''Actor_vel_lng''"
  shows "load_actors read_excel read_csv file_bytes = Inl (KeyError ''Actor_vel_lng'')"
proof -
  from assms(4) have "get_col (clean_columns raw) ''Actor_vel_lng'' = Inl (KeyError ''Actor_vel_lng'')"
    by (simp add: has_col_iff get_col_def)
  with assms(1-3) show ?thesis
    by (simp add: load_actors_def Let_def has_col_get_col)
qed

text \<open>
  C2 says that an absent longitudinal column counts as 0.0 in the reconstruction. On an
  actor table with \<open>Actor_vel_abs = 0\<close>, \<open>Actor_vel_lat = 3\<close> and no \<open>Actor_vel_lng\<close>
  column, \<open>load_actors\<close> raises KeyError and returns no table, where C2 expects
  \<open>Actor_vel_abs = 3.0\<close>.
\<close>

theorem load_actors_missing_lng_fails:
  "load_actors no_excel (\<lambda>bs. Inr ex_actors_no_lng) ''Actor_Id,Actor_vel_abs,Actor_vel_lat''
     = Inl (KeyError ''Actor_vel_lng'')"
  by (simp add: load_actors_def read_tabular_def ex_actors_no_lng_def clean_columns_def strip_def
      is_space_def startswith_def has_col_def get_col_def)

text \<open>
  With the three velocity columns present, the reconstruction is as C2 says: row by row,
  a zero or missing absolute velocity becomes the norm of the two components, a missing
  component counting as 0.0, and any other absolute velocity is kept.
\<close>

lemma select_Nil: "select [] c = []" "select m [] = []"
  by (simp_all add: select_def)

lemma select_Cons: "select (b # m) (x # c) = (if b then x # select m c else select m c)"
  by (simp add: select_def)

lemma select_norm:
  assumes "length m = length ls" and "length ls = length gs"
  shows "map cell_sqrt
           (map2 cell_add (map cell_sq (fillna (Fin 0) (select m ls)))
                          (map cell_sq (fillna (Fin 0) (select m gs))))
       = select m (map2 (\<lambda>l g. cell_sqrt (cell_add (cell_sq (if l = NaN then Fin 0 else l))
                                                    (cell_sq (if g = NaN then Fin 0 else g)))) ls gs)"
  using assms
  by (induction m ls gs rule: list_induct3) (simp_all add: select_Nil select_Cons fillna_def isna_def)

lemma assign_masked_select:
  assumes "length m = length xs" and "length xs = length vs"
  shows "assign_masked m xs (select m vs) = map2 (\<lambda>b (x, v). if b then v else x) m (zip xs vs)"
  using assms
  by (induction m xs vs rule: list_induct3) (simp_all add: select_Nil select_Cons)

lemma zero_mask_iff: "cell_eq (if isna a then Fin 0 else a) (Fin 0) \<longleftrightarrow> a = NaN \<or> a = Fin 0"
  by (auto simp: cell_eq_def isna_def)

lemma map2_map_fst: "length xs = length ys \<Longrightarrow> map2 (\<lambda>b (x, v). if b then v else x) (map P xs) (zip xs ys)
   = map2 (\<lambda>x v. if P x then v else x) xs ys"
  by (induction xs ys rule: list_induct2) simp_all

lemma load_actors_vel_abs:
  assumes rd: "read_tabular read_excel read_csv file_bytes = Inr raw"
    and wf: "wf_table raw"
    and vabs: "get_col (clean_columns raw) ''Actor_vel_abs'' = Inr vabs"
    and vlat: "get_col (clean_columns raw) ''Actor_vel_lat'' = Inr vlat"
    and vlng: "get_col (clean_columns raw) ''Actor_vel_lng'' = Inr vlng"
  shows "\<exists>df. load_actors read_excel read_csv file_bytes = Inr df
     \<and> get_col df ''Actor_vel_abs''
        = Inr (map2 (\<lambda>a (l, g). if a = NaN \<or> a = Fin 0
                                then cell_sqrt (cell_add (cell_sq (if l = NaN then Fin 0 else l))
                                                         (cell_sq (if g = NaN then Fin 0 else g)))
                                else a) vabs (zip vlat vlng))"
proof -
  let ?norm = "\<lambda>l g. cell_sqrt (cell_add (cell_sq (if l = NaN then Fin 0 else l))
                                          (cell_sq (if g = NaN then Fin 0 else g)))"
  let ?P = "\<lambda>a. a = NaN \<or> a = Fin 0"
  let ?m = "map (\<lambda>v. cell_eq v (Fin 0)) (fillna (Fin 0) vabs)"
  from wf have len: "list_all (\<lambda>nc. length (snd nc) = nrows raw) (cols raw)"
    by (simp add: wf_table_def)
  have l1: "length vabs = nrows raw" "length vlat = nrows raw" "length vlng = nrows raw"
    using vabs vlat vlng clean_columns_length [OF len]
    by (simp_all add: get_col_def split: option.splits)
  have m: "?m = map ?P vabs"
    by (simp add: fillna_def zero_mask_iff)
  have "assign_masked ?m vabs
          (map cell_sqrt
             (map2 cell_add (map cell_sq (fillna (Fin 0) (select ?m vlat)))
                            (map cell_sq (fillna (Fin 0) (select ?m vlng)))))
      = assign_masked ?m vabs (select ?m (map2 ?norm vlat vlng))"
    by (subst select_norm) (simp_all add: l1 fillna_def)
  also have "\<dots> = map2 (\<lambda>b (x, v). if b then v else x) ?m (zip vabs (map2 ?norm vlat vlng))"
    by (subst assign_masked_select) (simp_all add: l1 fillna_def)
  also have "\<dots> = map2 (\<lambda>x v. if ?P x then v else x) vabs (map2 ?norm vlat vlng)"
    unfolding m using l1 by (simp add: map2_map_fst)
  also have "\<dots> = map2 (\<lambda>a (l, g). if ?P a then ?norm l g else a) vabs (zip vlat vlng)"
    by (simp add: zip_map2 split_def)
  finally have new: "assign_masked ?m vabs
          (map cell_sqrt
             (map2 cell_add (map cell_sq (fillna (Fin 0) (select ?m vlat)))
                            (map cell_sq (fillna (Fin 0) (select ?m vlng)))))
      = map2 (\<lambda>a (l, g). if ?P a then ?norm l g else a) vabs (zip vlat vlng)" .
  from vabs vlat have h: "has_col (clean_columns raw) ''Actor_vel_abs''"
    "has_col (clean_columns raw) ''Actor_vel_lat''"
    by (simp_all add: get_col_has_col)
  from vabs have c: "col_of (clean_columns raw) ''Actor_vel_abs'' = vabs"
    by (rule get_col_col_of)
  have "load_actors read_excel read_csv file_bytes
      = Inr (set_col ''Actor_vel_abs''
               (map2 (\<lambda>a (l, g). if ?P a then ?norm l g else a) vabs (zip vlat vlng))
               (clean_columns raw))"
    by (simp only: load_actors_def Let_def rd sum.case h simp_thms if_True vlat vlng c new)
  then show ?thesis
    by (simp add: get_col_set_col)
qed

text \<open>
  The scenario of C2: absolute velocity 0 with components 3 and 4 becomes 5.0; the
  value 2 is kept; a missing value with components missing and 2 becomes 2.0.
\<close>

lemma load_actors_scenario:
  "load_actors no_excel (\<lambda>bs. Inr ex_actors_345) ''Actor_Id'' = 
    Inr \<lparr>nrows = 3,
      cols = [(''Actor_Id'', [Fin 1, Fin 1, Fin 1]), (''Actor_vel_abs'', [Fin 5, Fin 2, Fin 2]),
              (''Actor_vel_lat'', [Fin 3, Fin 3, NaN]), (''Actor_vel_lng'', [Fin 4, Fin 4, Fin 2])]\<rparr>"
  by (simp add: load_actors_def read_tabular_def ex_actors_345_def clean_columns_def strip_def
      is_space_def startswith_def has_col_def get_col_def col_of_def fillna_def isna_def cell_eq_def
      select_def set_col_def real_sqrt_unique)

subsection \<open>Actor enumeration\<close>

text \<open>
  \<open>unique\<close> keeps one copy of every value, in order of first appearance: a value seen
  before adds nothing, a new value is added at the end.
\<close>

lemma set_unique: "set (unique xs) = set xs"
  by (induction xs rule: unique.induct) auto

lemma distinct_unique: "distinct (unique xs)"
  by (induction xs rule: unique.induct) (auto simp: set_unique)

text \<open>A loop returns when every step returns.\<close>

lemma mapM_Cons_Inr:
  "mapM f (x # xs) = Inr zs \<longleftrightarrow> (\<exists>y ys. zs = y # ys \<and> f x = Inr y \<and> mapM f xs = Inr ys)"
  by (cases "f x"; cases "mapM f xs") auto

lemma mapM_Inr: "mapM f xs = Inr ys \<longleftrightarrow> list_all2 (\<lambda>x y. f x = Inr y) xs ys"
proof (induction xs arbitrary: ys)
  case Nil
  then show ?case by auto
next
  case (Cons x xs)
  then show ?case
    by (simp only: mapM_Cons_Inr list_all2_Cons1)
qed

lemma mapM_total:
  "(\<forall>x \<in> set xs. \<exists>y. f x = Inr y) \<Longrightarrow> \<exists>ys. mapM f xs = Inr ys"
proof (induction xs)
  case Nil
  then show ?case by simp
next
  case (Cons x xs)
  then obtain y ys where "f x = Inr y" "mapM f xs = Inr ys" by auto
  then show ?case by simp
qed

lemma mapM_map: "(\<forall>x \<in> set xs. f x = Inr (g x)) \<Longrightarrow> mapM f xs = Inr (map g xs)"
  by (induction xs) simp_all

lemma unique_snoc: "unique (xs @ [x]) = (if x \<in> set xs then unique xs else unique xs @ [x])"
  by (induction xs rule: unique.induct) simp_all

text \<open>The first selected cell is the cell of the first row where the mask holds.\<close>

lemma select_all_False: "True \<notin> set m \<Longrightarrow> select m c = []"
proof (induction m arbitrary: c)
  case Nil
  then show ?case by (simp add: select_Nil)
next
  case (Cons b m)
  from Cons.prems have nb: "\<not> b" and rest: "True \<notin> set m" by auto
  note ih = Cons.IH [OF rest]
  show ?case by (cases c) (simp_all add: select_Nil select_Cons nb ih)
qed

lemma select_first:
  "length m = length c \<Longrightarrow> i < length m \<Longrightarrow> m ! i \<Longrightarrow> (\<forall>j<i. \<not> m ! j) \<Longrightarrow>
     iloc0 (select m c) = Inr (c ! i)"
proof (induction m c arbitrary: i rule: list_induct2)
  case Nil
  then show ?case by simp
next
  case (Cons b m x c)
  show ?case
  proof (cases i)
    case 0
    with Cons.prems show ?thesis by (simp add: select_Cons iloc0_def)
  next
    case (Suc k)
    with Cons.prems have b: "\<not> b" by auto
    from Suc Cons.prems have "k < length m" "m ! k" "\<forall>j<k. \<not> m ! j" by auto
    then have "iloc0 (select m c) = Inr (c ! k)" by (rule Cons.IH)
    with b Suc show ?thesis by (simp add: select_Cons)
  qed
qed

lemma select_first_ex:
  "length m = length c \<Longrightarrow> iloc0 (select m c) = Inr v \<Longrightarrow>
     \<exists>i<length m. m ! i \<and> (\<forall>j<i. \<not> m ! j) \<and> v = c ! i"
proof (induction m c rule: list_induct2)
  case Nil
  then show ?case by (simp add: select_Nil iloc0_def)
next
  case (Cons b m x c)
  show ?case
  proof (cases b)
    case True
    with Cons.prems have "v = x" by (simp add: select_Cons iloc0_def)
    with True have "0 < length (b # m) \<and> (b # m) ! 0 \<and> (\<forall>j<0. \<not> (b # m) ! j) \<and> v = (x # c) ! 0"
      by simp
    then show ?thesis by blast
  next
    case False
    with Cons.prems have "iloc0 (select m c) = Inr v" by (simp add: select_Cons)
    then obtain i where i: "i < length m" "m ! i" "\<forall>j<i. \<not> m ! j" "v = c ! i"
      using Cons.IH by blast
    have "\<forall>j<Suc i. \<not> (b # m) ! j"
    proof (intro allI impI)
      fix j assume "j < Suc i"
      with False i(3) show "\<not> (b # m) ! j" by (cases j) auto
    qed
    with i have "Suc i < length (b # m) \<and> (b # m) ! Suc i \<and> (\<forall>j<Suc i. \<not> (b # m) ! j) \<and> v = (x # c) ! Suc i"
      by simp
    then show ?thesis by blast
  qed
qed

lemma has_col_rows_of: "has_col (rows_of df aid) name = has_col df name"
  by (simp add: rows_of_def filter_rows_def has_col_def comp_def)

lemma col_of_filter_rows: "col_of (filter_rows m df) name = select m (col_of df name)"
proof -
  have "map_of (map (\<lambda>nc. (fst nc, select m (snd nc))) (cols df)) name
      = map_option (select m) (map_of (cols df) name)"
    by (rule map_of_map_snd)
  then show ?thesis
    by (simp add: col_of_def filter_rows_def select_Nil split: option.splits)
qed

lemma col_of_rows_of:
  "col_of (rows_of df aid) name = select (map (\<lambda>v. cell_eq v aid) (col_of df ''Actor_Id'')) (col_of df name)"
  by (simp add: rows_of_def col_of_filter_rows)

lemma wf_col_of_length: "wf_table df \<Longrightarrow> has_col df name \<Longrightarrow> length (col_of df name) = nrows df"
  by (auto simp: has_col_iff col_of_def dest: wf_table_length)

lemma actor_entry_no_type:
  "\<not> has_col df ''Actor_type'' \<Longrightarrow>
     actor_entry df aid = Inr \<lparr>actor_id = aid, actor_type = 0, actor_type_name = type_name 0\<rparr>"
  by (simp add: actor_entry_def actor_type_of_def has_col_rows_of)

lemma actor_entry_typed:
  assumes "has_col df ''Actor_type''"
  shows "actor_entry df aid = Inr e \<longleftrightarrow>
     (\<exists>v. iloc0 (select (map (\<lambda>v. cell_eq v aid) (col_of df ''Actor_Id'')) (col_of df ''Actor_type'')) = Inr v
          \<and> py_int v = Inr (actor_type e) \<and> actor_id e = aid
          \<and> actor_type_name e = type_name (actor_type e))"
  using assms
  by (cases e)
    (auto simp: actor_entry_def actor_type_of_def has_col_rows_of col_of_rows_of Let_def
      split: sum.splits)

lemma list_all2_map_eq: "list_all2 (\<lambda>x y. x = f y) xs ys \<Longrightarrow> xs = map f ys"
  by (induction xs ys rule: list_all2_induct) simp_all

lemma list_all2_in_set:
  "list_all2 P xs ys \<Longrightarrow> y \<in> set ys \<Longrightarrow> \<exists>x \<in> set xs. P x y"
  by (induction xs ys rule: list_all2_induct) auto

lemma first_row_of:
  assumes "length ids = length tys"
    and "iloc0 (select (map (\<lambda>v. cell_eq v aid) ids) tys) = Inr v"
  shows "\<exists>i<length ids. ids ! i = aid \<and> (\<forall>j<i. ids ! j \<noteq> aid) \<and> v = tys ! i"
proof -
  let ?m = "map (\<lambda>v. cell_eq v aid) ids"
  from assms have "\<exists>i<length ?m. ?m ! i \<and> (\<forall>j<i. \<not> ?m ! j) \<and> v = tys ! i"
    by (intro select_first_ex) simp_all
  then obtain i where i: "i < length ids" "cell_eq (ids ! i) aid"
    "\<forall>j<i. \<not> cell_eq (ids ! j) aid" "v = tys ! i"
    by auto
  from i(2) have a: "ids ! i = aid" "aid \<noteq> NaN" by (simp_all add: cell_eq_def)
  have "\<forall>j<i. ids ! j \<noteq> aid"
  proof (intro allI impI)
    fix j assume "j < i"
    with i(3) have "\<not> cell_eq (ids ! j) aid" by simp
    with a(2) show "ids ! j \<noteq> aid" by (auto simp: cell_eq_def)
  qed
  with i(1,4) a(1) show ?thesis by blast
qed

lemma first_row_exists:
  assumes "aid \<in> set ids"
  shows "\<exists>i<length ids. ids ! i = aid \<and> (\<forall>j<i. ids ! j \<noteq> aid)"
proof -
  let ?P = "\<lambda>i. i < length ids \<and> ids ! i = aid"
  from assms obtain k where "?P k" by (auto simp: in_set_conv_nth)
  then have "?P (LEAST i. ?P i)" by (rule LeastI)
  moreover have "\<forall>j<(LEAST i. ?P i). ids ! j \<noteq> aid"
  proof (intro allI impI)
    fix j assume j: "j < (LEAST i. ?P i)"
    then have "\<not> ?P j" by (rule not_less_Least)
    moreover from j \<open>?P (LEAST i. ?P i)\<close> have "j < length ids" by simp
    ultimately show "ids ! j \<noteq> aid" by simp
  qed
  ultimately show ?thesis by blast
qed

text \<open>
  C8, as amended. Let the actor file load to a well-formed table. \<open>extract_actors\<close>
  returns the empty list when the table has no \<open>Actor_Id\<close> column or no row. Without
  an \<open>Actor_type\<close> column it returns one entry per distinct identifier, in order of first
  appearance, each with type code 0. With an \<open>Actor_type\<close> column, whenever it returns,
  the entries are the distinct identifiers in order of first appearance, and the type
  code of an entry is \<open>int\<close> of the type value in the first row of that identifier (the
  first value, missing or not); and it returns when no identifier is missing and the
  type value in the first row of every identifier is a finite number.
\<close>

theorem extract_actors_entries:
  assumes load: "load_actors read_excel read_csv file_bytes = Inr df"
    and wf: "wf_table df"
  shows "(\<not> has_col df ''Actor_Id'' \<or> nrows df = 0 \<longrightarrow>
            extract_actors read_excel read_csv file_bytes = Inr [])
    \<and> (has_col df ''Actor_Id'' \<and> \<not> has_col df ''Actor_type'' \<longrightarrow>
          extract_actors read_excel read_csv file_bytes =
            Inr (map (\<lambda>aid. \<lparr>actor_id = aid, actor_type = 0, actor_type_name = type_name 0\<rparr>)
                   (unique (col_of df ''Actor_Id''))))
    \<and> (has_col df ''Actor_Id'' \<and> has_col df ''Actor_type'' \<longrightarrow>
          (\<forall>res. extract_actors read_excel read_csv file_bytes = Inr res \<longrightarrow>
             map actor_id res = unique (col_of df ''Actor_Id'')
             \<and> (\<forall>e \<in> set res. \<exists>i<nrows df.
                    col_of df ''Actor_Id'' ! i = actor_id e
                  \<and> (\<forall>j<i. col_of df ''Actor_Id'' ! j \<noteq> actor_id e)
                  \<and> py_int (col_of df ''Actor_type'' ! i) = Inr (actor_type e)
                  \<and> actor_type_name e = type_name (actor_type e))))
    \<and> (has_col df ''Actor_Id'' \<and> has_col df ''Actor_type''
        \<and> (\<forall>i<nrows df. col_of df ''Actor_Id'' ! i \<noteq> NaN
              \<and> ((\<forall>j<i. col_of df ''Actor_Id'' ! j \<noteq> col_of df ''Actor_Id'' ! i) \<longrightarrow>
                    (\<exists>r. col_of df ''Actor_type'' ! i = Fin r))) \<longrightarrow>
          (\<exists>res. extract_actors read_excel read_csv file_bytes = Inr res))"
proof -
  let ?ids = "col_of df ''Actor_Id''"
  let ?tys = "col_of df ''Actor_type''"
  let ?ex = "extract_actors read_excel read_csv file_bytes"
  have ex: "?ex = (if \<not> has_col df ''Actor_Id'' then Inr [] else mapM (actor_entry df) (unique ?ids))"
    using load by (simp add: extract_actors_def)
  have p1: "\<not> has_col df ''Actor_Id'' \<or> nrows df = 0 \<longrightarrow> ?ex = Inr []"
  proof
    assume a: "\<not> has_col df ''Actor_Id'' \<or> nrows df = 0"
    show "?ex = Inr []"
    proof (cases "has_col df ''Actor_Id''")
      case False
      with ex show ?thesis by simp
    next
      case True
      with a have "nrows df = 0" by simp
      with wf True have "?ids = []" using wf_col_of_length [of df "''Actor_Id''"] by simp
      with ex True show ?thesis by simp
    qed
  qed
  have p2: "has_col df ''Actor_Id'' \<and> \<not> has_col df ''Actor_type'' \<longrightarrow>
      ?ex = Inr (map (\<lambda>aid. \<lparr>actor_id = aid, actor_type = 0, actor_type_name = type_name 0\<rparr>)
                   (unique ?ids))"
    using ex by (simp add: mapM_map actor_entry_no_type)
  have p3: "has_col df ''Actor_Id'' \<and> has_col df ''Actor_type'' \<longrightarrow>
          (\<forall>res. ?ex = Inr res \<longrightarrow>
             map actor_id res = unique ?ids
             \<and> (\<forall>e \<in> set res. \<exists>i<nrows df.
                    ?ids ! i = actor_id e
                  \<and> (\<forall>j<i. ?ids ! j \<noteq> actor_id e)
                  \<and> py_int (?tys ! i) = Inr (actor_type e)
                  \<and> actor_type_name e = type_name (actor_type e)))"
  proof (intro impI allI)
    fix res
    assume h: "has_col df ''Actor_Id'' \<and> has_col df ''Actor_type''" and r: "?ex = Inr res"
    from h wf have len: "length ?ids = nrows df" "length ?tys = nrows df"
      by (simp_all add: wf_col_of_length)
    from h r ex have all2: "list_all2 (\<lambda>aid e. actor_entry df aid = Inr e) (unique ?ids) res"
      by (simp add: mapM_Inr)
    have id: "actor_entry df aid = Inr e \<Longrightarrow> aid = actor_id e" for aid e
      using h by (auto simp: actor_entry_typed)
    from all2 have "list_all2 (\<lambda>aid e. aid = actor_id e) (unique ?ids) res"
      by (rule list_all2_mono) (rule id)
    then have "unique ?ids = map actor_id res"
      by (rule list_all2_map_eq)
    then have ids: "map actor_id res = unique ?ids"
      by simp
    have rows: "\<forall>e \<in> set res. \<exists>i<nrows df. ?ids ! i = actor_id e
                  \<and> (\<forall>j<i. ?ids ! j \<noteq> actor_id e)
                  \<and> py_int (?tys ! i) = Inr (actor_type e)
                  \<and> actor_type_name e = type_name (actor_type e)"
    proof
      fix e assume e: "e \<in> set res"
      from list_all2_in_set [OF all2 e] obtain aid where "actor_entry df aid = Inr e"
        by blast
      with h have "\<exists>v. iloc0 (select (map (\<lambda>v. cell_eq v aid) ?ids) ?tys) = Inr v
          \<and> py_int v = Inr (actor_type e) \<and> actor_id e = aid
          \<and> actor_type_name e = type_name (actor_type e)"
        by (simp add: actor_entry_typed)
      then obtain v where v: "iloc0 (select (map (\<lambda>v. cell_eq v aid) ?ids) ?tys) = Inr v"
        and t: "py_int v = Inr (actor_type e)" "actor_id e = aid"
          "actor_type_name e = type_name (actor_type e)"
        by blast
      from len v have "\<exists>i<length ?ids. ?ids ! i = aid \<and> (\<forall>j<i. ?ids ! j \<noteq> aid) \<and> v = ?tys ! i"
        by (intro first_row_of) simp_all
      then obtain i where i: "i < length ?ids" "?ids ! i = aid" "\<forall>j<i. ?ids ! j \<noteq> aid"
        "v = ?tys ! i"
        by blast
      from i t len have "i < nrows df \<and> ?ids ! i = actor_id e
                  \<and> (\<forall>j<i. ?ids ! j \<noteq> actor_id e)
                  \<and> py_int (?tys ! i) = Inr (actor_type e)
                  \<and> actor_type_name e = type_name (actor_type e)"
        by simp
      then show "\<exists>i<nrows df. ?ids ! i = actor_id e
                  \<and> (\<forall>j<i. ?ids ! j \<noteq> actor_id e)
                  \<and> py_int (?tys ! i) = Inr (actor_type e)
                  \<and> actor_type_name e = type_name (actor_type e)"
        by blast
    qed
    from ids rows show "map actor_id res = unique ?ids
             \<and> (\<forall>e \<in> set res. \<exists>i<nrows df.
                    ?ids ! i = actor_id e
                  \<and> (\<forall>j<i. ?ids ! j \<noteq> actor_id e)
                  \<and> py_int (?tys ! i) = Inr (actor_type e)
                  \<and> actor_type_name e = type_name (actor_type e))" ..
  qed
  have p4: "has_col df ''Actor_Id'' \<and> has_col df ''Actor_type''
        \<and> (\<forall>i<nrows df. ?ids ! i \<noteq> NaN
              \<and> ((\<forall>j<i. ?ids ! j \<noteq> ?ids ! i) \<longrightarrow> (\<exists>r. ?tys ! i = Fin r))) \<longrightarrow>
          (\<exists>res. ?ex = Inr res)"
  proof
    assume a: "has_col df ''Actor_Id'' \<and> has_col df ''Actor_type''
        \<and> (\<forall>i<nrows df. ?ids ! i \<noteq> NaN
              \<and> ((\<forall>j<i. ?ids ! j \<noteq> ?ids ! i) \<longrightarrow> (\<exists>r. ?tys ! i = Fin r)))"
    then have h: "has_col df ''Actor_Id''" "has_col df ''Actor_type''" by simp_all
    from h wf have len: "length ?ids = nrows df" "length ?tys = nrows df"
      by (simp_all add: wf_col_of_length)
    have "\<forall>aid \<in> set (unique ?ids). \<exists>e. actor_entry df aid = Inr e"
    proof
      fix aid assume "aid \<in> set (unique ?ids)"
      then have "aid \<in> set ?ids" by (simp add: set_unique)
      then have "\<exists>i<length ?ids. ?ids ! i = aid \<and> (\<forall>j<i. ?ids ! j \<noteq> aid)"
        by (rule first_row_exists)
      then obtain i where i: "i < length ?ids" "?ids ! i = aid" "\<forall>j<i. ?ids ! j \<noteq> aid"
        by blast
      from a have "\<forall>i<nrows df. ?ids ! i \<noteq> NaN
              \<and> ((\<forall>j<i. ?ids ! j \<noteq> ?ids ! i) \<longrightarrow> (\<exists>r. ?tys ! i = Fin r))"
        by simp
      with i(1) len have "?ids ! i \<noteq> NaN
              \<and> ((\<forall>j<i. ?ids ! j \<noteq> ?ids ! i) \<longrightarrow> (\<exists>r. ?tys ! i = Fin r))"
        by simp
      with i(2,3) have "aid \<noteq> NaN \<and> (\<exists>r. ?tys ! i = Fin r)" by simp
      then obtain r where r: "?tys ! i = Fin r" and nn: "aid \<noteq> NaN" by blast
      let ?m = "map (\<lambda>v. cell_eq v aid) ?ids"
      have "iloc0 (select ?m ?tys) = Inr (?tys ! i)"
      proof (rule select_first)
        show "length ?m = length ?tys" using len by simp
        show "i < length ?m" using i(1) by simp
        show "?m ! i" using i(1,2) nn by (simp add: cell_eq_def)
        show "\<forall>j<i. \<not> ?m ! j" using i(1,3) by (simp add: cell_eq_def)
      qed
      with r have "actor_entry df aid = Inr \<lparr>actor_id = aid,
          actor_type = (if 0 \<le> r then \<lfloor>r\<rfloor> else \<lceil>r\<rceil>),
          actor_type_name = type_name (if 0 \<le> r then \<lfloor>r\<rfloor> else \<lceil>r\<rceil>)\<rparr>"
        using h(2) by (simp add: actor_entry_typed)
      then show "\<exists>e. actor_entry df aid = Inr e" by blast
    qed
    then have "\<exists>res. mapM (actor_entry df) (unique ?ids) = Inr res" by (rule mapM_total)
    with ex h show "\<exists>res. ?ex = Inr res" by simp
  qed
  show ?thesis
    by (rule conjI [OF p1 conjI [OF p2 conjI [OF p3 p4]]])
qed

text \<open>
  C8 as stated fails when the first type value of an actor is missing: with
  \<open>Actor_Id = [7, 7]\<close> and \<open>Actor_type = [NaN, 4]\<close> the first non-missing type value is
  4, and \<open>extract_actors\<close> raises ValueError at \<open>int(NaN)\<close> instead of returning type 4.
\<close>

theorem extract_actors_entries_counterexample:
  "extract_actors no_excel (\<lambda>bs. Inr ex_actors_type_nan) ''Actor_Id,Actor_type'' = Inl ValueError
   \<and> dropna (col_of ex_actors_type_nan ''Actor_type'') = [Fin 4]"
  by (simp add: extract_actors_def load_actors_def read_tabular_def ex_actors_type_nan_def
      clean_columns_def strip_def is_space_def startswith_def has_col_def col_of_def
      actor_entry_def actor_type_of_def rows_of_def filter_rows_def select_def cell_eq_def
      iloc0_def dropna_def isna_def)

theorem extract_actors_entries_witness:
  "load_actors no_excel (\<lambda>bs. Inr ex_actors_ids) ''Actor_Id,Actor_type'' = Inr ex_actors_ids
   \<and> wf_table ex_actors_ids
   \<and> has_col ex_actors_ids ''Actor_Id'' \<and> has_col ex_actors_ids ''Actor_type''
   \<and> list_all (\<lambda>i. col_of ex_actors_ids ''Actor_Id'' ! i \<noteq> NaN
          \<and> ((\<forall>j<i. col_of ex_actors_ids ''Actor_Id'' ! j \<noteq> col_of ex_actors_ids ''Actor_Id'' ! i) \<longrightarrow>
                (\<exists>r. col_of ex_actors_ids ''Actor_type'' ! i = Fin r)))
        [0..<nrows ex_actors_ids]
   \<and> extract_actors no_excel (\<lambda>bs. Inr ex_actors_ids) ''Actor_Id,Actor_type''
       = Inr [\<lparr>actor_id = Fin 7, actor_type = 4, actor_type_name = ''passenger_vehicle''\<rparr>,
              \<lparr>actor_id = Fin 3, actor_type = 25, actor_type_name = ''type_25''\<rparr>]
   \<and> map actor_id [\<lparr>actor_id = Fin 7, actor_type = 4, actor_type_name = ''passenger_vehicle''\<rparr>,
              \<lparr>actor_id = Fin 3, actor_type = 25, actor_type_name = ''type_25''\<rparr>]
       = unique (col_of ex_actors_ids ''Actor_Id'')"
proof -
  let ?ex = "extract_actors no_excel (\<lambda>bs. Inr ex_actors_ids) ''Actor_Id,Actor_type''"
  let ?res = "[\<lparr>actor_id = Fin 7, actor_type = 4, actor_type_name = ''passenger_vehicle''\<rparr>,
              \<lparr>actor_id = Fin 3, actor_type = 25, actor_type_name = ''type_25''\<rparr>]"
  have 1: "load_actors no_excel (\<lambda>bs. Inr ex_actors_ids) ''Actor_Id,Actor_type'' = Inr ex_actors_ids"
    by (simp add: load_actors_def read_tabular_def ex_actors_ids_def clean_columns_def strip_def
        is_space_def startswith_def has_col_def)
  have 2: "wf_table ex_actors_ids"
    by (simp add: wf_table_def ex_actors_ids_def)
  have 3: "has_col ex_actors_ids ''Actor_Id'' \<and> has_col ex_actors_ids ''Actor_type''"
    by (simp add: has_col_def ex_actors_ids_def)
  have 4: "\<forall>i<nrows ex_actors_ids. col_of ex_actors_ids ''Actor_Id'' ! i \<noteq> NaN
          \<and> ((\<forall>j<i. col_of ex_actors_ids ''Actor_Id'' ! j \<noteq> col_of ex_actors_ids ''Actor_Id'' ! i) \<longrightarrow>
                (\<exists>r. col_of ex_actors_ids ''Actor_type'' ! i = Fin r))"
    by (simp add: ex_actors_ids_def col_of_def eval_nat_numeral All_less_Suc)
  note main = extract_actors_entries [OF 1 2]
  from main 3 4 obtain res where res: "?ex = Inr res"
    by blast
  with main 3 have 5: "map actor_id res = unique (col_of ex_actors_ids ''Actor_Id'')"
    by blast
  have "?ex = mapM (actor_entry ex_actors_ids) (unique (col_of ex_actors_ids ''Actor_Id''))"
    by (simp add: extract_actors_def 1 3)
  also have "\<dots> = Inr ?res"
    by (simp add: ex_actors_ids_def col_of_def
        actor_entry_def actor_type_of_def rows_of_def filter_rows_def select_def cell_eq_def
        iloc0_def has_col_def type_name_def ACTOR_TYPE_NAMES_def str_int_def digit_def)
  finally have 6: "?ex = Inr ?res" .
  with res have "res = ?res" by simp
  with 5 have 7: "map actor_id ?res = unique (col_of ex_actors_ids ''Actor_Id'')" by simp
  from 4 have 8: "list_all (\<lambda>i. col_of ex_actors_ids ''Actor_Id'' ! i \<noteq> NaN
          \<and> ((\<forall>j<i. col_of ex_actors_ids ''Actor_Id'' ! j \<noteq> col_of ex_actors_ids ''Actor_Id'' ! i) \<longrightarrow>
                (\<exists>r. col_of ex_actors_ids ''Actor_type'' ! i = Fin r)))
        [0..<nrows ex_actors_ids]"
    by (simp only: list_all_iff set_upt atLeastLessThan_iff le0 simp_thms Ball_def) 
  show ?thesis
    by (rule conjI [OF 1 conjI [OF 2 conjI [OF conjunct1 [OF 3] conjI [OF conjunct2 [OF 3]
          conjI [OF 8 conjI [OF 6 7]]]]]])
qed

subsection \<open>Evaluation\<close>

lemma evaluate_None:
  assumes "load_vut read_excel read_csv vut_bytes = Inr vut_df"
  shows "evaluate read_excel read_csv vut_bytes None tc_id r_id =
    Inr \<lparr>test_case_id = tc_id, run_id = r_id,
         validation = \<lparr>valid = (fst (validate_vut vut_df) = []),
                        errors = fst (validate_vut vut_df),
                        warnings = snd (validate_vut vut_df)\<rparr>,
         vut = vut_channels vut_df, actors = []\<rparr>"
  using assms by (simp add: evaluate_def Let_def split_def)

lemma evaluate_Some:
  assumes "load_vut read_excel read_csv vut_bytes = Inr vut_df"
  shows "evaluate read_excel read_csv vut_bytes (Some ab) tc_id r_id =
    (case evaluate_actors read_excel read_csv vut_df ab of
       Inl e \<Rightarrow> Inl e
     | Inr (actor_errors, actor_warnings, actors_result) \<Rightarrow>
         Inr \<lparr>test_case_id = tc_id, run_id = r_id,
              validation = \<lparr>valid = (fst (validate_vut vut_df) @ actor_errors = []),
                             errors = fst (validate_vut vut_df) @ actor_errors,
                             warnings = snd (validate_vut vut_df) @ actor_warnings\<rparr>,
              vut = vut_channels vut_df, actors = actors_result\<rparr>)"
  using assms by (simp add: evaluate_def Let_def split_def split: sum.splits)


lemma load_vut_ex_time:
  "load_vut no_excel ex_csv ''Time\<newline>5\<newline>7\<newline>\<newline>'' = Inr ex_time_loaded"
  by (simp add: load_vut_def read_tabular_def ex_csv_def ex_time_def ex_time_loaded_def
      clean_columns_def strip_def is_space_def startswith_def get_col_def iloc0_def set_col_def
      has_col_def cell_sub_def)

lemma load_actors_ex_garbage: "load_actors no_excel ex_csv ''\<newline>,'' = Inl ReadError"
  by (simp add: load_actors_def read_tabular_def ex_csv_def)



subsection \<open>Arrays of an evaluation result\<close>

lemma py_round_nan: "py_round n v = NaN \<longleftrightarrow> v = NaN" "NaN = py_round n v \<longleftrightarrow> v = NaN"
  by (cases v; simp)+

lemma safe_col_length: "wf_table df \<Longrightarrow> length (safe_col df name d) = nrows df"
  by (simp add: safe_col_def wf_col_of_length)

lemma safe_col_no_nan: "d \<noteq> NaN \<Longrightarrow> NaN \<notin> set (safe_col df name d)"
  by (auto simp: safe_col_def isna_def py_round_nan)

text \<open>
  What \<open>safe_col\<close> puts at a row: the default for a missing value, the rounded value
  otherwise; an infinite value is not missing, and rounding keeps it.
\<close>

lemma safe_col_nth:
  assumes "has_col df name" and "i < length (col_of df name)"
  shows "safe_col df name d ! i =
     (if col_of df name ! i = NaN then d else py_round 6 (col_of df name ! i))"
  using assms by (simp add: safe_col_def isna_def)

lemma vut_channels_arrays:
  assumes "wf_table df"
  shows "\<forall>ka \<in> set (vut_channels df). length (snd ka) = nrows df \<and> NaN \<notin> set (snd ka)"
  using assms by (simp add: vut_channels_def safe_col_length safe_col_no_nan)

lemma length_select: "length m = length c \<Longrightarrow> length (select m c) = length (filter id m)"
  by (induction m c rule: list_induct2) (simp_all add: select_Nil select_Cons)

lemma length_filter_mask: "length (filter id (map P xs)) = length (filter P xs)"
  by (induction xs) simp_all

lemma mapM_length: "mapM f xs = Inr ys \<Longrightarrow> length ys = length xs"
  by (simp add: mapM_Inr list_all2_lengthD)

lemma nrows_rows_of:
  "nrows (rows_of df aid) = length (filter (\<lambda>v. cell_eq v aid) (col_of df ''Actor_Id''))"
  by (simp add: rows_of_def filter_rows_def length_filter_mask)

lemma length_col_rows_of:
  assumes "wf_table df" and "has_col df ''Actor_Id''" and "has_col df name"
  shows "length (col_of (rows_of df aid) name)
       = length (filter (\<lambda>v. cell_eq v aid) (col_of df ''Actor_Id''))"
proof -
  from assms have "length (map (\<lambda>v. cell_eq v aid) (col_of df ''Actor_Id'')) = length (col_of df name)"
    by (simp add: wf_col_of_length)
  then have "length (select (map (\<lambda>v. cell_eq v aid) (col_of df ''Actor_Id'')) (col_of df name))
      = length (filter id (map (\<lambda>v. cell_eq v aid) (col_of df ''Actor_Id'')))"
    by (rule length_select)
  then show ?thesis by (simp add: col_of_rows_of length_filter_mask)
qed

lemma get_col_rows_of_length:
  assumes "wf_table df" and "has_col df ''Actor_Id''" and "get_col (rows_of df aid) name = Inr c"
  shows "length c = length (filter (\<lambda>v. cell_eq v aid) (col_of df ''Actor_Id''))"
proof -
  from assms(3) have "has_col (rows_of df aid) name" and c: "col_of (rows_of df aid) name = c"
    by (simp_all add: get_col_has_col get_col_col_of)
  then have "has_col df name" by (simp add: has_col_rows_of)
  with assms(1,2) c show ?thesis using length_col_rows_of by blast
qed

lemma trajectory_of_arrays:
  assumes wf: "wf_table df" and ids: "has_col df ''Actor_Id''"
    and tr: "trajectory_of vut_df (rows_of df aid) = Inr traj"
  shows "(\<forall>ka \<in> set traj. length (snd ka) = length (filter (\<lambda>v. cell_eq v aid) (col_of df ''Actor_Id'')))
       \<and> (\<forall>arr. (''heading'', arr) \<in> set traj \<longrightarrow> NaN \<notin> set arr)"
proof -
  let ?rows = "rows_of df aid"
  let ?n = "length (filter (\<lambda>v. cell_eq v aid) (col_of df ''Actor_Id''))"
  let ?heading = "if has_col ?rows ''Actor_heading_true''
                      then map (\<lambda>v. if \<not> isna v then py_round 4 v else Fin 0)
                             (col_of ?rows ''Actor_heading_true'')
                      else replicate (nrows ?rows) (Fin 0)"
  from tr obtain lat lng steps t where
    lat: "get_col ?rows ''Actor_pos_true_lat'' = Inr lat" and
    lng: "get_col ?rows ''Actor_pos_true_lng'' = Inr lng" and
    steps: "get_col ?rows ''Step_number'' = Inr steps" and
    t: "mapM (step_time vut_df) steps = Inr t" and
    traj: "traj = [(''lat'', map (py_round 6) lat), (''lng'', map (py_round 6) lng),
                   (''heading'', ?heading), (''t'', t)]"
    by (auto simp: trajectory_of_def Let_def split: sum.splits)
  note len = get_col_rows_of_length [OF wf ids]
  have 1: "length lat = ?n" using lat by (rule len)
  have 2: "length lng = ?n" using lng by (rule len)
  have 3: "length steps = ?n" using steps by (rule len)
  have 4: "length t = ?n" using t 3 by (simp add: mapM_length)
  have 5: "length ?heading = ?n"
    using wf ids by (simp add: nrows_rows_of length_col_rows_of has_col_rows_of)
  have 6: "NaN \<notin> set ?heading"
    by (auto simp: isna_def py_round_nan)
  from 1 2 4 5 6 show ?thesis
    unfolding traj by simp
qed

lemma trajectory_of_keys:
  "trajectory_of vut_df a_rows = Inr traj \<Longrightarrow> map fst traj = [''lat'', ''lng'', ''heading'', ''t'']"
  by (auto simp: trajectory_of_def Let_def split: sum.splits)

lemma actor_result_of_Inr:
  "actor_result_of vut_df actor_df aid = Inr a \<Longrightarrow>
     actor_id a = aid \<and> trajectory_of vut_df (rows_of actor_df aid) = Inr (trajectory a)"
  by (auto simp: actor_result_of_def Let_def split: sum.splits)

lemma evaluate_actors_entries:
  assumes "evaluate_actors read_excel read_csv vut_df ab = Inr (ae, aw, acts)"
    and "load_actors read_excel read_csv ab = Inr actor_df"
    and "a \<in> set acts"
  shows "has_col actor_df ''Actor_Id''
     \<and> trajectory_of vut_df (rows_of actor_df (actor_id a)) = Inr (trajectory a)"
proof -
  from assms(1,2) have
    "(if has_col actor_df ''Actor_Id'' then
        (case mapM (actor_result_of vut_df actor_df) (unique (col_of actor_df ''Actor_Id'')) of
           Inl e \<Rightarrow> Inl e
         | Inr actors_result \<Rightarrow>
             Inr (fst (validate_actors actor_df), snd (validate_actors actor_df), actors_result))
      else Inr (fst (validate_actors actor_df), snd (validate_actors actor_df), []))
     = Inr (ae, aw, acts)"
    by (simp add: evaluate_actors_def Let_def split_def)
  with assms(3) have h: "has_col actor_df ''Actor_Id''"
    and m: "mapM (actor_result_of vut_df actor_df) (unique (col_of actor_df ''Actor_Id'')) = Inr acts"
    by (auto split: if_splits sum.splits)
  from m have "list_all2 (\<lambda>aid a. actor_result_of vut_df actor_df aid = Inr a)
      (unique (col_of actor_df ''Actor_Id'')) acts"
    by (simp add: mapM_Inr)
  from list_all2_in_set [OF this assms(3)] obtain aid
    where "actor_result_of vut_df actor_df aid = Inr a" by blast
  then have "actor_id a = aid \<and> trajectory_of vut_df (rows_of actor_df aid) = Inr (trajectory a)"
    by (rule actor_result_of_Inr)
  with h show ?thesis by simp
qed


text \<open>Rounding a whole number gives that number.\<close>

lemma round_half_even_int: "round_half_even (of_int k) = k"
  by (simp add: round_half_even_def)

lemma round_half_even_numeral: "round_half_even (numeral k) = numeral k" "round_half_even 0 = 0"
  using round_half_even_int [of "numeral k"] round_half_even_int [of 0] by simp_all

lemma load_vut_ex_gap: "load_vut no_excel ex_csv_gap ''V'' = Inr ex_vut_inf_loaded"
  by (simp add: load_vut_def read_tabular_def ex_csv_gap_def ex_vut_inf_def ex_vut_inf_loaded_def
      clean_columns_def strip_def is_space_def startswith_def get_col_def col_of_def iloc0_def
      set_col_def has_col_def cell_sub_def fillna_def isna_def)

lemma load_actors_ex_gap: "load_actors no_excel ex_csv_gap ''A'' = Inr ex_actor_gap"
  by (simp add: load_actors_def read_tabular_def ex_csv_gap_def ex_actor_gap_def
      clean_columns_def strip_def is_space_def startswith_def has_col_def)

lemma vut_channels_ex_gap: "vut_channels ex_vut_inf_loaded = vut ex_result_gap"
  by (simp add: vut_channels_def safe_col_def ex_vut_inf_loaded_def ex_result_gap_def has_col_def
      col_of_def isna_def round_half_even_numeral)

lemma validate_vut_ex_gap: "validate_vut ex_vut_inf_loaded = ([], [])"
  by (simp add: validate_vut_def ex_vut_inf_loaded_def VUT_REQUIRED_COLS_def has_col_def
      col_of_def outside_def negative_def decreasing_def dropna_def isna_def any_Nil any_Cons
      cell_gt_def nan_warning_def)

lemma validate_actors_ex_gap: "validate_actors ex_actor_gap = ([], [])"
  by (simp add: validate_actors_def ex_actor_gap_def ACTOR_REQUIRED_COLS_def has_col_def
      col_of_def outside_def dropna_def isna_def any_Nil any_Cons cell_gt_def)

lemma actor_result_ex_gap:
  "actor_result_of ex_vut_inf_loaded ex_actor_gap (Fin 7) = Inr (hd (actors ex_result_gap))"
  by (simp add: actor_result_of_def actor_type_of_def trajectory_of_def step_time_def rows_of_def
      filter_rows_def select_def cell_eq_def ex_actor_gap_def ex_vut_inf_loaded_def
      ex_result_gap_def has_col_def get_col_def col_of_def iloc0_def isna_def any_Nil any_Cons
      type_name_def ACTOR_TYPE_NAMES_def round_half_even_numeral)

lemma evaluate_ex_gap: "evaluate no_excel ex_csv_gap ''V'' (Some ''A'') ''TC'' ''r0'' = Inr ex_result_gap"
proof -
  have u: "unique (col_of ex_actor_gap ''Actor_Id'') = [Fin 7]"
    by (simp add: ex_actor_gap_def col_of_def)
  have h: "has_col ex_actor_gap ''Actor_Id''"
    by (simp add: ex_actor_gap_def has_col_def)
  have "evaluate_actors no_excel ex_csv_gap ex_vut_inf_loaded ''A'' = Inr ([], [], actors ex_result_gap)"
    by (simp add: evaluate_actors_def load_actors_ex_gap validate_actors_ex_gap h u
        actor_result_ex_gap) (simp add: ex_result_gap_def)
  then show ?thesis
    by (simp add: evaluate_Some [OF load_vut_ex_gap] validate_vut_ex_gap vut_channels_ex_gap)
      (simp add: ex_result_gap_def)
qed



end
